theory Spec2Isabelle
  imports Complex_Main "HOL-Library.Multiset" "HOL-Library.Log_Nat"
begin

section \<open>The EKG data model (src/ekg/models.py)\<close>

text \<open>
  The three enumerations of models.py. \<open>EventStatus\<close> and \<open>ClaimStatus\<close> both have
  members VERIFIED and REFUTED; the event ones carry the prefix \<open>EV_\<close> here.
\<close>

datatype SourceType =
  OFFICIAL_MEDIA | SOCIAL_MEDIA | NEWS_OUTLET | BLOG | FORUM | ANONYMOUS | UNKNOWN

datatype EventStatus = DEVELOPING | INVESTIGATED | EV_VERIFIED | EV_REFUTED

datatype ClaimStatus = PENDING | VERIFIED | REFUTED | UNVERIFIABLE

text \<open>
  JSON payloads (verification_result, evidence) are association lists; an empty one is
  the empty dict or list, which Python treats as false. Timestamps are ticks of a clock:
  every operation that calls \<open>datetime.utcnow()\<close> takes the current time as \<open>now\<close>.
\<close>

type_synonym json = "(string \<times> string) list"

type_synonym datetime = nat

section \<open>Python floats\<close>

text \<open>
  A Python float is an IEEE 754 double. It is modelled by its exact value, a rational, and
  every operation rounds its exact result to the nearest double, a tie going to the even
  mantissa: \<open>fl\<close> scales the magnitude into [2^52, 2^53), rounds to an integer and scales
  back. The exponent is not bounded, so overflow and subnormal numbers are outside the
  model; the values the code computes from counts and from integers that an Integer
  column holds stay far inside the range of a double. A Float column (confidence,
  credibility_score) holds such a value.
\<close>

definition round_half_even :: "rat \<Rightarrow> int" where
  "round_half_even y =
     (let f = \<lfloor>y\<rfloor>; d = y - of_int f
      in if d < 1 / 2 then f
         else if 1 / 2 < d then f + 1
         else if even f then f else f + 1)"

definition float_exponent :: "rat \<Rightarrow> int" where
  "float_exponent a =
     (let k = bitlen (fst (quotient_of a)) - bitlen (snd (quotient_of a))
      in (if 2 powi k \<le> a then k else k - 1) - 52)"

definition fl :: "rat \<Rightarrow> rat" where
  "fl x =
     (if x = 0 then 0
      else (let e = float_exponent \<bar>x\<bar>
            in sgn x * of_int (round_half_even (\<bar>x\<bar> / 2 powi e)) * 2 powi e))"

text \<open>
  Float addition, subtraction and multiplication, and \<open>a / b\<close> on two Python integers
  (true division, correctly rounded). Every division in the code modelled here stands
  under a guard that its divisor is positive.
\<close>

definition fadd :: "rat \<Rightarrow> rat \<Rightarrow> rat" where
  "fadd x y = fl (x + y)"

definition fsub :: "rat \<Rightarrow> rat \<Rightarrow> rat" where
  "fsub x y = fl (x - y)"

definition fmul :: "rat \<Rightarrow> rat \<Rightarrow> rat" where
  "fmul x y = fl (x * y)"

definition truediv :: "int \<Rightarrow> int \<Rightarrow> rat" where
  "truediv a b = fl (of_int a / of_int b)"

text \<open>
  \<open>round(x, 2)\<close> on a float: the exact value of \<open>x\<close> is rounded to two decimals, a
  tie going to the even digit, and the decimal is converted to the nearest double.
\<close>

definition py_round2 :: "rat \<Rightarrow> rat" where
  "py_round2 x = fl (of_int (round_half_even (x * 100)) / 100)"

section \<open>Rows and store\<close>

text \<open>
  The rows of the tables. Integer columns are Python integers (\<open>int\<close>). The free-form
  JSON columns that no repository operation below reads or writes (metadata, tags,
  category, entities) are left out.
\<close>

record Source =
  src_id :: int
  src_name :: string
  src_type :: SourceType
  credit_score :: int
  src_url :: "string option"
  src_description :: "string option"
  total_claims :: int
  verified_claims :: int
  refuted_claims :: int
  src_created_at :: datetime
  src_updated_at :: datetime

record Event =
  ev_id :: string
  ev_status :: EventStatus
  ev_title :: "string option"
  ev_description :: "string option"
  ev_credibility_score :: rat
  ev_heat_score :: rat
  ev_created_at :: datetime
  ev_updated_at :: datetime

record Claim =
  claim_id :: int
  claim_text :: string
  claim_status :: ClaimStatus
  event_id :: "string option"
  source_id :: int
  verification_result :: json
  claim_type :: "string option"
  claim_timestamp :: datetime
  claim_created_at :: datetime

record ClaimRefutation =
  ref_id :: int
  refuting_claim_id :: int
  refuted_claim_id :: int
  confidence :: rat
  evidence :: json
  ref_created_at :: datetime

text \<open>
  The database behind the SQLAlchemy session: each table is the list of its rows in
  insertion order, with the next value of its autoincrement key.
\<close>

record store =
  sources :: "Source list"
  events :: "Event list"
  claims :: "Claim list"
  refutations :: "ClaimRefutation list"
  next_source_id :: int
  next_claim_id :: int
  next_refutation_id :: int

text \<open>
  What the database raises: an integrity error at commit, a data error for a statement it
  refuses. Whether a dangling foreign key is an error is a
  property of the engine: PostgreSQL (the default \<open>database_url\<close> of utils/config.py)
  enforces foreign keys, SQLite (the engine of the demos) does not unless asked to. The
  operations that insert a row with a foreign key take this as the flag \<open>fk_enforced\<close>.
\<close>

datatype error = IntegrityError | DataError

text \<open>Values of the dictionaries the repository returns.\<close>

datatype pyval = PInt int | PFloat rat | PStr string

type_synonym pydict = "(string \<times> pyval) list"

section \<open>Row access\<close>

text \<open>
  \<open>query(T).filter_by(...).first()\<close> is the first row that matches, or None. A row
  object loaded by the session is changed in place and written back at commit:
  \<open>update_first\<close> changes the first matching row.
\<close>

fun update_first :: "('a \<Rightarrow> bool) \<Rightarrow> ('a \<Rightarrow> 'a) \<Rightarrow> 'a list \<Rightarrow> 'a list" where
  "update_first P f [] = []"
| "update_first P f (x # xs) = (if P x then f x # xs else x # update_first P f xs)"

definition get_source :: "store \<Rightarrow> int \<Rightarrow> Source option" where
  "get_source s sid = find (\<lambda>r. src_id r = sid) (sources s)"

definition get_source_by_name :: "store \<Rightarrow> string \<Rightarrow> Source option" where
  "get_source_by_name s name = find (\<lambda>r. src_name r = name) (sources s)"

definition get_event :: "store \<Rightarrow> string \<Rightarrow> Event option" where
  "get_event s eid = find (\<lambda>r. ev_id r = eid) (events s)"

definition get_claim :: "store \<Rightarrow> int \<Rightarrow> Claim option" where
  "get_claim s cid = find (\<lambda>r. claim_id r = cid) (claims s)"

definition get_claims_by_event :: "store \<Rightarrow> string \<Rightarrow> Claim list" where
  "get_claims_by_event s eid = filter (\<lambda>c. event_id c = Some eid) (claims s)"

text \<open>The relationship \<open>claim.source\<close>: the Source row the claim's foreign key names.\<close>

definition claim_source :: "store \<Rightarrow> Claim \<Rightarrow> Source option" where
  "claim_source s c = get_source s (source_id c)"

section \<open>Repository: sources (src/ekg/repository.py)\<close>

text \<open>
  The keyword arguments of \<open>find_or_create_source\<close> are handed to the \<open>Source\<close>
  constructor, so they may set any column; a column they leave out takes its default
  (credit_score 50, counters 0, timestamps now).
\<close>

record source_kwargs =
  kw_credit_score :: "int option"
  kw_url :: "string option"
  kw_description :: "string option"
  kw_total_claims :: "int option"
  kw_verified_claims :: "int option"
  kw_refuted_claims :: "int option"

definition no_kwargs :: source_kwargs where
  "no_kwargs = \<lparr>kw_credit_score = None, kw_url = None, kw_description = None,
     kw_total_claims = None, kw_verified_claims = None, kw_refuted_claims = None\<rparr>"

definition column_default :: "'a \<Rightarrow> 'a option \<Rightarrow> 'a" where
  "column_default d v = (case v of None \<Rightarrow> d | Some x \<Rightarrow> x)"

definition new_source :: "int \<Rightarrow> datetime \<Rightarrow> string \<Rightarrow> SourceType \<Rightarrow> source_kwargs \<Rightarrow> Source" where
  "new_source i now name source_type kw =
     \<lparr>src_id = i, src_name = name, src_type = source_type,
      credit_score = column_default 50 (kw_credit_score kw),
      src_url = kw_url kw, src_description = kw_description kw,
      total_claims = column_default 0 (kw_total_claims kw),
      verified_claims = column_default 0 (kw_verified_claims kw),
      refuted_claims = column_default 0 (kw_refuted_claims kw),
      src_created_at = now, src_updated_at = now\<rparr>"

definition find_or_create_source ::
  "store \<Rightarrow> datetime \<Rightarrow> string \<Rightarrow> SourceType \<Rightarrow> source_kwargs \<Rightarrow> Source \<times> store" where
  "find_or_create_source s now name source_type kw =
     (case get_source_by_name s name of
        Some source \<Rightarrow> (source, s)
      | None \<Rightarrow>
          (let source = new_source (next_source_id s) now name source_type kw
           in (source, s\<lparr>sources := sources s @ [source],
                          next_source_id := next_source_id s + 1\<rparr>)))"

definition update_source_credit_score :: "store \<Rightarrow> datetime \<Rightarrow> int \<Rightarrow> int \<Rightarrow> bool \<times> store" where
  "update_source_credit_score s now sid change =
     (case get_source s sid of
        None \<Rightarrow> (False, s)
      | Some source \<Rightarrow>
          (let new_score = max 0 (min 100 (credit_score source + change))
           in (True, s\<lparr>sources := update_first (\<lambda>r. src_id r = sid)
                 (\<lambda>r. r\<lparr>credit_score := new_score, src_updated_at := now\<rparr>) (sources s)\<rparr>)))"

text \<open>
  \<open>accuracy_rate\<close> is a float when the division is made and the integer 0 of the
  \<open>else\<close> branch otherwise.
\<close>

definition get_source_statistics :: "store \<Rightarrow> int \<Rightarrow> pydict" where
  "get_source_statistics s sid =
     (case get_source s sid of
        None \<Rightarrow> []
      | Some source \<Rightarrow>
          [(''total_claims'', PInt (total_claims source)),
           (''verified_claims'', PInt (verified_claims source)),
           (''refuted_claims'', PInt (refuted_claims source)),
           (''accuracy_rate'',
              if total_claims source > 0
              then PFloat (fmul (truediv (verified_claims source) (total_claims source)) 100)
              else PInt 0),
           (''credit_score'', PInt (credit_score source))])"

text \<open>A run of credit-score adjustments, each \<open>(source_id, change, now)\<close>, in order.\<close>

fun apply_credit_updates :: "store \<Rightarrow> (int \<times> int \<times> datetime) list \<Rightarrow> store" where
  "apply_credit_updates s [] = s"
| "apply_credit_updates s ((sid, change, now) # rest) =
     apply_credit_updates (snd (update_source_credit_score s now sid change)) rest"

section \<open>Repository: events\<close>

definition update_event_status ::
  "store \<Rightarrow> datetime \<Rightarrow> string \<Rightarrow> EventStatus \<Rightarrow> rat option \<Rightarrow> bool \<times> store" where
  "update_event_status s now eid status credibility =
     (case get_event s eid of
        None \<Rightarrow> (False, s)
      | Some event \<Rightarrow>
          (True, s\<lparr>events := update_first (\<lambda>r. ev_id r = eid)
             (\<lambda>r. (case credibility of
                      None \<Rightarrow> r\<lparr>ev_status := status, ev_updated_at := now\<rparr>
                    | Some c \<Rightarrow> r\<lparr>ev_status := status, ev_credibility_score := c,
                                 ev_updated_at := now\<rparr>)) (events s)\<rparr>))"

section \<open>Repository: claims\<close>

text \<open>
  The keyword arguments of \<open>create_claim\<close> that its callers use (the importer passes
  status, claim_type and verification_result); a column left out takes its default.
\<close>

record claim_kwargs =
  kw_status :: "ClaimStatus option"
  kw_claim_type :: "string option"
  kw_verification_result :: "json option"

definition no_claim_kwargs :: claim_kwargs where
  "no_claim_kwargs = \<lparr>kw_status = None, kw_claim_type = None, kw_verification_result = None\<rparr>"

definition new_claim ::
  "int \<Rightarrow> datetime \<Rightarrow> string \<Rightarrow> int \<Rightarrow> string option \<Rightarrow> claim_kwargs \<Rightarrow> Claim" where
  "new_claim i now text sid eid kw =
     \<lparr>claim_id = i, claim_text = text,
      claim_status = column_default PENDING (kw_status kw),
      event_id = eid, source_id = sid,
      verification_result = column_default [] (kw_verification_result kw),
      claim_type = kw_claim_type kw,
      claim_timestamp = now, claim_created_at = now\<rparr>"

text \<open>
  \<open>create_claim\<close> adds the claim, then looks the source up and counts the claim on it
  only \<open>if source:\<close>; it makes no check of its own. The commit fails on a dangling
  \<open>source_id\<close> or \<open>event_id\<close> exactly when the engine enforces foreign keys. The
  UPDATE of the source row also sets \<open>updated_at\<close> (the column's \<open>onupdate\<close>).
\<close>

definition dangling_event :: "store \<Rightarrow> string option \<Rightarrow> bool" where
  "dangling_event s eid = (case eid of None \<Rightarrow> False | Some e \<Rightarrow> get_event s e = None)"

definition create_claim ::
  "bool \<Rightarrow> store \<Rightarrow> datetime \<Rightarrow> string \<Rightarrow> int \<Rightarrow> string option \<Rightarrow> claim_kwargs
     \<Rightarrow> error + (Claim \<times> store)" where
  "create_claim fk_enforced s now text sid eid kw =
     (let claim = new_claim (next_claim_id s) now text sid eid kw;
          source = get_source s sid
      in if fk_enforced \<and> (source = None \<or> dangling_event s eid) then Inl IntegrityError
         else Inr (claim,
           s\<lparr>claims := claims s @ [claim],
              sources := (case source of
                  None \<Rightarrow> sources s
                | Some _ \<Rightarrow> update_first (\<lambda>r. src_id r = sid)
                    (\<lambda>r. r\<lparr>total_claims := total_claims r + 1, src_updated_at := now\<rparr>)
                    (sources s)),
              next_claim_id := next_claim_id s + 1\<rparr>))"

text \<open>\<open>if verification_result:\<close> holds for a dict that is given and not empty.\<close>

definition truthy :: "json option \<Rightarrow> bool" where
  "truthy v = (case v of None \<Rightarrow> False | Some d \<Rightarrow> d \<noteq> [])"

definition update_claim_status ::
  "store \<Rightarrow> datetime \<Rightarrow> int \<Rightarrow> ClaimStatus \<Rightarrow> json option \<Rightarrow> bool \<times> store" where
  "update_claim_status s now cid status result =
     (case get_claim s cid of
        None \<Rightarrow> (False, s)
      | Some claim \<Rightarrow>
          (let old_status = claim_status claim;
               claims' = update_first (\<lambda>r. claim_id r = cid)
                 (\<lambda>r. r\<lparr>claim_status := status,
                         verification_result :=
                           (if truthy result then the result else verification_result r)\<rparr>)
                 (claims s);
               sources' = (case claim_source s claim of
                   None \<Rightarrow> sources s
                 | Some source \<Rightarrow>
                     if old_status \<noteq> VERIFIED \<and> status = VERIFIED
                     then update_first (\<lambda>r. src_id r = source_id claim)
                       (\<lambda>r. r\<lparr>verified_claims := verified_claims r + 1,
                               src_updated_at := now\<rparr>) (sources s)
                     else if old_status \<noteq> REFUTED \<and> status = REFUTED
                     then update_first (\<lambda>r. src_id r = source_id claim)
                       (\<lambda>r. r\<lparr>refuted_claims := refuted_claims r + 1,
                               src_updated_at := now\<rparr>) (sources s)
                     else sources s)
           in (True, s\<lparr>claims := claims', sources := sources'\<rparr>)))"

text \<open>
  A run of \<open>update_claim_status\<close> calls on one claim, each \<open>(status, now)\<close>, and the
  number of entries into a status along a run that starts from \<open>old\<close>: a call counts
  when it sets the status \<open>t\<close> on a claim whose status was not \<open>t\<close>.
\<close>

fun apply_claim_statuses :: "store \<Rightarrow> int \<Rightarrow> (ClaimStatus \<times> datetime) list \<Rightarrow> store" where
  "apply_claim_statuses s cid [] = s"
| "apply_claim_statuses s cid ((status, now) # rest) =
     apply_claim_statuses (snd (update_claim_status s now cid status None)) cid rest"

fun entries_into :: "ClaimStatus \<Rightarrow> ClaimStatus \<Rightarrow> ClaimStatus list \<Rightarrow> int" where
  "entries_into t old [] = 0"
| "entries_into t old (x # xs) =
     (if old \<noteq> t \<and> x = t then 1 else 0) + entries_into t x xs"

section \<open>Repository: refutation edges\<close>

text \<open>
  \<open>create_claim_refutation\<close> builds the row from its arguments as they are
  (\<open>evidence or []\<close> for the evidence) and commits; the only failure is the engine's,
  for a claim id that names no claim when foreign keys are enforced.
\<close>

definition create_claim_refutation ::
  "bool \<Rightarrow> store \<Rightarrow> datetime \<Rightarrow> int \<Rightarrow> int \<Rightarrow> rat \<Rightarrow> json option
     \<Rightarrow> error + (ClaimRefutation \<times> store)" where
  "create_claim_refutation fk_enforced s now refuting refuted conf ev =
     (let refutation = \<lparr>ref_id = next_refutation_id s, refuting_claim_id = refuting,
            refuted_claim_id = refuted, confidence = conf,
            evidence = (if truthy ev then the ev else []), ref_created_at = now\<rparr>
      in if fk_enforced \<and> (get_claim s refuting = None \<or> get_claim s refuted = None)
         then Inl IntegrityError
         else Inr (refutation,
           s\<lparr>refutations := refutations s @ [refutation],
              next_refutation_id := next_refutation_id s + 1\<rparr>))"

section \<open>Repository: trending sources\<close>









section \<open>Graph operations (src/ekg/graph_ops.py)\<close>

text \<open>
  The loop over the claims appends one credit score for each claim that has a source, so
  a source with several claims in the event is counted once per claim.
\<close>

definition source_scores_of :: "store \<Rightarrow> Claim list \<Rightarrow> int list" where
  "source_scores_of s cl = map credit_score (List.map_filter (claim_source s) cl)"

text \<open>
  The score before the blend: \<open>score = 50.0\<close>, then
  \<open>score += (verified_count / total) * 30\<close> and
  \<open>score -= (refuted_count / total) * 40\<close>, each step in float arithmetic.
\<close>

definition outcome_score :: "nat \<Rightarrow> nat \<Rightarrow> nat \<Rightarrow> rat" where
  "outcome_score verified_count refuted_count total' =
     fsub (fadd 50 (fmul (truediv (int verified_count) (int total')) 30))
          (fmul (truediv (int refuted_count) (int total')) 40)"

text \<open>
  The literals \<open>0.7\<close> and \<open>0.3\<close> are the doubles nearest to 7/10 and 3/10, and
  \<open>score * 0.7 + avg_source_score * 0.3\<close> is two products and a sum of floats.
\<close>

definition blend_score :: "rat \<Rightarrow> int list \<Rightarrow> rat" where
  "blend_score score source_scores =
     (if source_scores \<noteq> []
      then fadd (fmul score (fl (7 / 10)))
                (fmul (truediv (sum_list source_scores) (int (length source_scores)))
                      (fl (3 / 10)))
      else score)"

definition calculate_event_credibility :: "store \<Rightarrow> string \<Rightarrow> pydict" where
  "calculate_event_credibility s eid =
     (case get_event s eid of
        None \<Rightarrow> [(''error'', PStr ''Event not found'')]
      | Some event \<Rightarrow>
          (let cl = get_claims_by_event s eid
           in if cl = []
              then [(''credibility_score'', PFloat 50), (''confidence'', PStr ''low''),
                    (''reason'', PStr ''No claims to verify'')]
              else
                (let verified_count = length (filter (\<lambda>c. claim_status c = VERIFIED) cl);
                     refuted_count = length (filter (\<lambda>c. claim_status c = REFUTED) cl);
                     total' = length cl;
                     score = outcome_score verified_count refuted_count total';
                     score = blend_score score (source_scores_of s cl)
                 in [(''credibility_score'', PFloat (py_round2 score)),
                     (''verified_claims'', PInt (int verified_count)),
                     (''refuted_claims'', PInt (int refuted_count)),
                     (''total_claims'', PInt (int total')),
                     (''confidence'', PStr (if 3 \<le> total' then ''high'' else ''low''))])))"

text \<open>
  The score as the specification words it, for an event that has claims: the outcome
  term blended 0.7 / 0.3 with the mean credit score of the distinct sources behind the
  claims, in exact arithmetic.
\<close>

definition spec_credibility_score :: "store \<Rightarrow> string \<Rightarrow> rat" where
  "spec_credibility_score s eid =
     (let cl = get_claims_by_event s eid;
          v = length (filter (\<lambda>c. claim_status c = VERIFIED) cl);
          r = length (filter (\<lambda>c. claim_status c = REFUTED) cl);
          srcs = remdups (List.map_filter (claim_source s) cl)
      in (7 / 10) * (50 + 30 * (of_nat v / of_nat (length cl))
                        - 40 * (of_nat r / of_nat (length cl)))
         + (3 / 10) * (of_int (sum_list (map credit_score srcs)) / of_nat (length srcs)))"

section \<open>Example data\<close>

text \<open>
  A small store: three sources, one event and three claims on it, two pending ones by
  the first source and a verified one by the second; the third source is new.
\<close>

definition tech_insider :: Source where
  "tech_insider = \<lparr>src_id = 1, src_name = ''@TechInsider'', src_type = SOCIAL_MEDIA,
     credit_score = 80, src_url = None, src_description = None, total_claims = 2,
     verified_claims = 0, refuted_claims = 0, src_created_at = 0, src_updated_at = 0\<rparr>"

definition sec_official :: Source where
  "sec_official = \<lparr>src_id = 2, src_name = ''SEC'', src_type = OFFICIAL_MEDIA,
     credit_score = 20, src_url = None, src_description = None, total_claims = 1,
     verified_claims = 1, refuted_claims = 0, src_created_at = 1, src_updated_at = 1\<rparr>"

definition fresh_blog :: Source where
  "fresh_blog = new_source 3 1 ''blog'' BLOG no_kwargs"

definition demo_event :: Event where
  "demo_event = \<lparr>ev_id = ''E-1'', ev_status = DEVELOPING, ev_title = None,
     ev_description = None, ev_credibility_score = 50, ev_heat_score = 0,
     ev_created_at = 2, ev_updated_at = 2\<rparr>"

definition demo_claim :: "int \<Rightarrow> int \<Rightarrow> ClaimStatus \<Rightarrow> Claim" where
  "demo_claim i sid status = \<lparr>claim_id = i, claim_text = ''claim'', claim_status = status,
     event_id = Some ''E-1'', source_id = sid, verification_result = [],
     claim_type = None, claim_timestamp = 3, claim_created_at = 3\<rparr>"

definition demo_store :: store where
  "demo_store = \<lparr>sources = [tech_insider, sec_official, fresh_blog], events = [demo_event],
     claims = [demo_claim 1 1 PENDING, demo_claim 2 1 PENDING, demo_claim 3 2 VERIFIED],
     refutations = [], next_source_id = 4, next_claim_id = 4, next_refutation_id = 1\<rparr>"

definition empty_store :: store where
  "empty_store = \<lparr>sources = [], events = [], claims = [], refutations = [],
     next_source_id = 1, next_claim_id = 1, next_refutation_id = 1\<rparr>"




text \<open>The small store with the first source's credit score out of range.\<close>

definition inflated_store :: store where
  "inflated_store = demo_store\<lparr>sources :=
     [tech_insider\<lparr>credit_score := 1000\<rparr>, sec_official, fresh_blog]\<rparr>"

text \<open>
  An event with four pending claims, three by a source with credit score 50 and one by a
  source with credit score 53; and the same store with the first claim verified.
\<close>

definition steady :: Source where
  "steady = \<lparr>src_id = 1, src_name = ''steady'', src_type = NEWS_OUTLET,
     credit_score = 50, src_url = None, src_description = None, total_claims = 3,
     verified_claims = 0, refuted_claims = 0, src_created_at = 0, src_updated_at = 0\<rparr>"

definition upbeat :: Source where
  "upbeat = \<lparr>src_id = 2, src_name = ''upbeat'', src_type = BLOG,
     credit_score = 53, src_url = None, src_description = None, total_claims = 1,
     verified_claims = 0, refuted_claims = 0, src_created_at = 1, src_updated_at = 1\<rparr>"

definition rounding_store :: store where
  "rounding_store = \<lparr>sources = [steady, upbeat], events = [demo_event],
     claims = [demo_claim 1 1 PENDING, demo_claim 2 1 PENDING, demo_claim 3 1 PENDING,
               demo_claim 4 2 PENDING],
     refutations = [], next_source_id = 3, next_claim_id = 5, next_refutation_id = 1\<rparr>"

definition thirds_store :: store where
  "thirds_store = rounding_store\<lparr>sources := [steady\<lparr>verified_claims := 1\<rparr>, upbeat],
     claims := [demo_claim 1 1 VERIFIED, demo_claim 2 1 PENDING, demo_claim 3 1 PENDING,
                demo_claim 4 2 PENDING]\<rparr>"

text \<open>A source created with a negative total_claims among its keyword arguments.\<close>

definition negative_store :: store where
  "negative_store = snd (find_or_create_source empty_store 0 ''@rumor'' ANONYMOUS
     (no_kwargs\<lparr>kw_total_claims := Some (- 1), kw_verified_claims := Some 1\<rparr>))"

section \<open>Rows under an in-place update\<close>

lemma find_update_first_same:
  "(\<And>x. P x \<Longrightarrow> P (f x)) \<Longrightarrow> find P (update_first P f xs) = map_option f (find P xs)"
  by (induction xs) auto

lemma find_update_first_other:
  "(\<And>x. Q (f x) = Q x) \<Longrightarrow> (\<And>x. P x \<Longrightarrow> \<not> Q x) \<Longrightarrow>
     find Q (update_first P f xs) = find Q xs"
  by (induction xs) auto

lemma length_update_first: "length (update_first P f xs) = length xs"
  by (induction xs) auto

lemma update_first_absent: "find P xs = None \<Longrightarrow> update_first P f xs = xs"
  by (induction xs) (auto split: if_splits)

lemma find_None_filter: "find P xs = None \<longleftrightarrow> filter P xs = []"
  by (induction xs) auto

lemma find_Some_filter: "find P xs = Some x \<Longrightarrow> filter P xs \<noteq> []"
  by (induction xs) (auto split: if_splits)

lemma find_append_new: "find P xs = None \<Longrightarrow> P y \<Longrightarrow> find P (xs @ [y]) = Some y"
  by (induction xs) (auto split: if_splits)

section \<open>Credit score adjustments\<close>

lemma credit_update_found:
  assumes "get_source s sid = Some src"
  shows "update_source_credit_score s now sid change =
           (True, s\<lparr>sources := update_first (\<lambda>r. src_id r = sid)
              (\<lambda>r. r\<lparr>credit_score := max 0 (min 100 (credit_score src + change)),
                      src_updated_at := now\<rparr>) (sources s)\<rparr>)"
  using assms by (simp add: update_source_credit_score_def Let_def)

lemma credit_update_same:
  assumes "get_source s sid = Some src"
  shows "get_source (snd (update_source_credit_score s now sid change)) sid =
           Some (src\<lparr>credit_score := max 0 (min 100 (credit_score src + change)),
                     src_updated_at := now\<rparr>)"
  using assms
  by (simp add: credit_update_found get_source_def find_update_first_same)

lemma credit_update_other:
  assumes "sid' \<noteq> sid"
  shows "get_source (snd (update_source_credit_score s now sid change)) sid' = get_source s sid'"
proof (cases "get_source s sid")
  case None
  then show ?thesis by (simp add: update_source_credit_score_def)
next
  case (Some src)
  have "find (\<lambda>r. src_id r = sid') (update_first (\<lambda>r. src_id r = sid)
          (\<lambda>r. r\<lparr>credit_score := max 0 (min 100 (credit_score src + change)),
                  src_updated_at := now\<rparr>) (sources s))
        = find (\<lambda>r. src_id r = sid') (sources s)"
    by (rule find_update_first_other) (use assms in auto)
  then show ?thesis by (simp add: credit_update_found [OF Some] get_source_def)
qed

lemma credit_update_in_range:
  assumes "get_source s k = Some src" "0 \<le> credit_score src" "credit_score src \<le> 100"
  shows "\<exists>src'. get_source (snd (update_source_credit_score s now sid change)) k = Some src'
           \<and> 0 \<le> credit_score src' \<and> credit_score src' \<le> 100"
proof (cases "k = sid")
  case True
  with assms(1) show ?thesis by (simp add: credit_update_same)
next
  case False
  with assms show ?thesis by (simp add: credit_update_other)
qed

lemma apply_credit_updates_in_range:
  "get_source s k = Some src \<Longrightarrow> 0 \<le> credit_score src \<Longrightarrow> credit_score src \<le> 100 \<Longrightarrow>
     \<exists>src'. get_source (apply_credit_updates s calls) k = Some src'
        \<and> 0 \<le> credit_score src' \<and> credit_score src' \<le> 100"
proof (induction calls arbitrary: s src)
  case Nil
  then show ?case by simp
next
  case (Cons c calls)
  obtain sid change now where c: "c = (sid, change, now)" by (cases c) auto
  from credit_update_in_range [OF Cons.prems, of now sid change]
  obtain src1 where "get_source (snd (update_source_credit_score s now sid change)) k = Some src1"
    "0 \<le> credit_score src1" "credit_score src1 \<le> 100" by blast
  from Cons.IH [OF this] show ?case by (simp add: c)
qed

text \<open>
  C3. For a source in the store, \<open>update_source_credit_score\<close> succeeds and leaves the
  source with credit_score \<open>max 0 (min 100 (old + change))\<close> and updated_at set to the
  time of the call, every other column as it was; for an id that names no source it
  returns False. A source whose score is in [0,100] keeps a score in [0,100] through any
  sequence of such calls, on any sources.
\<close>

theorem update_source_credit_score_clamps:
  "(get_source s sid = Some src \<longrightarrow>
      fst (update_source_credit_score s now sid change) = True \<and>
      get_source (snd (update_source_credit_score s now sid change)) sid =
        Some (src\<lparr>credit_score := max 0 (min 100 (credit_score src + change)),
                  src_updated_at := now\<rparr>)) \<and>
   (get_source s sid = None \<longrightarrow> fst (update_source_credit_score s now sid change) = False) \<and>
   (get_source s k = Some src0 \<and> 0 \<le> credit_score src0 \<and> credit_score src0 \<le> 100 \<longrightarrow>
      (\<exists>src'. get_source (apply_credit_updates s calls) k = Some src' \<and>
         0 \<le> credit_score src' \<and> credit_score src' \<le> 100))"
proof (intro conjI impI)
  assume "get_source s sid = Some src"
  then show "fst (update_source_credit_score s now sid change) = True"
    by (simp add: credit_update_found)
next
  assume "get_source s sid = Some src"
  then show "get_source (snd (update_source_credit_score s now sid change)) sid =
        Some (src\<lparr>credit_score := max 0 (min 100 (credit_score src + change)),
                  src_updated_at := now\<rparr>)"
    by (rule credit_update_same)
next
  assume "get_source s sid = None"
  then show "fst (update_source_credit_score s now sid change) = False"
    by (simp add: update_source_credit_score_def)
next
  assume "get_source s k = Some src0 \<and> 0 \<le> credit_score src0 \<and> credit_score src0 \<le> 100"
  then show "\<exists>src'. get_source (apply_credit_updates s calls) k = Some src' \<and>
         0 \<le> credit_score src' \<and> credit_score src' \<le> 100"
    using apply_credit_updates_in_range by blast
qed

theorem update_source_credit_score_clamps_witness:
  "get_source demo_store 1 = Some tech_insider \<and>
   fst (update_source_credit_score demo_store 5 1 30) = True \<and>
   get_source (snd (update_source_credit_score demo_store 5 1 30)) 1 =
     Some (tech_insider\<lparr>credit_score := 100, src_updated_at := 5\<rparr>) \<and>
   get_source demo_store 9 = None \<and>
   fst (update_source_credit_score demo_store 5 9 30) = False \<and>
   (0 \<le> credit_score tech_insider \<and> credit_score tech_insider \<le> 100) \<and>
   (\<exists>src'. get_source (apply_credit_updates demo_store [(1, 30, 5), (2, - 50, 6), (1, - 200, 7)]) 1
        = Some src' \<and> 0 \<le> credit_score src' \<and> credit_score src' \<le> 100)"
proof -
  have a: "get_source demo_store 1 = Some tech_insider"
    by (simp add: get_source_def demo_store_def tech_insider_def)
  have b: "get_source demo_store 9 = None"
    by (simp add: get_source_def demo_store_def tech_insider_def sec_official_def
        fresh_blog_def new_source_def)
  have c: "0 \<le> credit_score tech_insider \<and> credit_score tech_insider \<le> 100"
    by (simp add: tech_insider_def)
  have d: "max 0 (min 100 (credit_score tech_insider + 30)) = 100"
    by (simp add: tech_insider_def)
  from update_source_credit_score_clamps [of demo_store 1 tech_insider 5 30 1 tech_insider
      "[(1, 30, 5), (2, - 50, 6), (1, - 200, 7)]"]
    update_source_credit_score_clamps [of demo_store 9 tech_insider 5 30 1 tech_insider "[]"]
    a b c d
  show ?thesis by simp
qed

section \<open>Failed updates\<close>

text \<open>
  C9. For an id that is not in the store, \<open>update_source_credit_score\<close>,
  \<open>update_event_status\<close> and \<open>update_claim_status\<close> return False and the store they
  leave is the store they were given: no row, counter, score, status or timestamp changes.
\<close>

theorem failed_update_leaves_store:
  "(get_source s sid = None \<longrightarrow>
      update_source_credit_score s now sid change = (False, s)) \<and>
   (get_event s eid = None \<longrightarrow>
      update_event_status s now eid status credibility = (False, s)) \<and>
   (get_claim s cid = None \<longrightarrow>
      update_claim_status s now cid cstatus result = (False, s))"
  by (simp add: update_source_credit_score_def update_event_status_def update_claim_status_def)

theorem failed_update_leaves_store_witness:
  "get_source demo_store 9 = None \<and>
   update_source_credit_score demo_store 5 9 (- 5) = (False, demo_store) \<and>
   get_event demo_store ''E-2'' = None \<and>
   update_event_status demo_store 5 ''E-2'' EV_REFUTED (Some 10) = (False, demo_store) \<and>
   get_claim demo_store 9 = None \<and>
   update_claim_status demo_store 5 9 VERIFIED None = (False, demo_store)"
proof -
  have a: "get_source demo_store 9 = None"
    by (simp add: get_source_def demo_store_def tech_insider_def sec_official_def
        fresh_blog_def new_source_def)
  have b: "get_event demo_store ''E-2'' = None"
    by (simp add: get_event_def demo_store_def demo_event_def)
  have c: "get_claim demo_store 9 = None"
    by (simp add: get_claim_def demo_store_def demo_claim_def)
  from failed_update_leaves_store [of demo_store 9 5 "- 5" "''E-2''" EV_REFUTED "Some 10" 9
      VERIFIED None] a b c
  show ?thesis by simp
qed

section \<open>Claim status transitions\<close>

lemma claim_update_found:
  assumes "get_claim s cid = Some c"
  shows "fst (update_claim_status s now cid st res) = True"
    and "claims (snd (update_claim_status s now cid st res)) =
           update_first (\<lambda>r. claim_id r = cid)
             (\<lambda>r. r\<lparr>claim_status := st,
                     verification_result := (if truthy res then the res else verification_result r)\<rparr>)
             (claims s)"
  using assms by (simp_all add: update_claim_status_def Let_def)

lemma claim_update_claim:
  assumes "get_claim s cid = Some c"
  shows "get_claim (snd (update_claim_status s now cid st res)) cid =
           Some (c\<lparr>claim_status := st,
                   verification_result := (if truthy res then the res else verification_result c)\<rparr>)"
  using assms
  by (simp add: claim_update_found(2) [OF assms] get_claim_def find_update_first_same)

lemma claim_update_source:
  assumes "get_claim s cid = Some c" and "get_source s (source_id c) = Some src"
  shows "get_source (snd (update_claim_status s now cid st res)) (source_id c) =
           Some (if claim_status c \<noteq> VERIFIED \<and> st = VERIFIED
                 then src\<lparr>verified_claims := verified_claims src + 1, src_updated_at := now\<rparr>
                 else if claim_status c \<noteq> REFUTED \<and> st = REFUTED
                 then src\<lparr>refuted_claims := refuted_claims src + 1, src_updated_at := now\<rparr>
                 else src)"
  using assms
  by (simp add: update_claim_status_def Let_def claim_source_def get_source_def
      find_update_first_same)

lemma claim_update_counters:
  assumes "get_claim s cid = Some c" and "get_source s (source_id c) = Some src"
  shows "\<exists>src'. get_source (snd (update_claim_status s now cid st res)) (source_id c) = Some src' \<and>
           verified_claims src' = verified_claims src +
             (if claim_status c \<noteq> VERIFIED \<and> st = VERIFIED then 1 else 0) \<and>
           refuted_claims src' = refuted_claims src +
             (if claim_status c \<noteq> REFUTED \<and> st = REFUTED then 1 else 0)"
  by (simp add: claim_update_source [OF assms])

lemma apply_claim_statuses_counters:
  "get_claim s cid = Some c \<Longrightarrow> get_source s (source_id c) = Some src \<Longrightarrow>
     \<exists>src'. get_source (apply_claim_statuses s cid calls) (source_id c) = Some src' \<and>
       verified_claims src' = verified_claims src + entries_into VERIFIED (claim_status c) (map fst calls) \<and>
       refuted_claims src' = refuted_claims src + entries_into REFUTED (claim_status c) (map fst calls)"
proof (induction calls arbitrary: s c src)
  case Nil
  then show ?case by simp
next
  case (Cons call calls)
  obtain st now where call: "call = (st, now)" by (cases call) auto
  let ?s1 = "snd (update_claim_status s now cid st None)"
  let ?c1 = "c\<lparr>claim_status := st\<rparr>"
  have c1: "get_claim ?s1 cid = Some ?c1"
    using claim_update_claim [OF Cons.prems(1), of now st None] by (simp add: truthy_def)
  from claim_update_counters [OF Cons.prems, of now st None]
  obtain src1 where src1: "get_source ?s1 (source_id c) = Some src1"
    and v1: "verified_claims src1 = verified_claims src +
             (if claim_status c \<noteq> VERIFIED \<and> st = VERIFIED then 1 else 0)"
    and r1: "refuted_claims src1 = refuted_claims src +
             (if claim_status c \<noteq> REFUTED \<and> st = REFUTED then 1 else 0)"
    by blast
  have src1': "get_source ?s1 (source_id ?c1) = Some src1" using src1 by simp
  from Cons.IH [OF c1 src1']
  obtain src' where "get_source (apply_claim_statuses ?s1 cid calls) (source_id c) = Some src'"
    and "verified_claims src' = verified_claims src1 + entries_into VERIFIED st (map fst calls)"
    and "refuted_claims src' = refuted_claims src1 + entries_into REFUTED st (map fst calls)"
    by auto
  then show ?case using v1 r1 by (simp add: call)
qed

text \<open>
  C1. For a claim in the store whose source exists, a call of \<open>update_claim_status\<close>
  succeeds and adds one to the source's verified_claims exactly when the claim's status
  before the call is not VERIFIED and the new status is VERIFIED, and likewise one to
  refuted_claims for REFUTED; nothing else is added to either counter. Repeating the call
  with the same status adds nothing to either counter. Along any run of calls on the
  claim, each counter grows by the number of entries into its status.
\<close>

theorem update_claim_status_counts_entries:
  assumes "get_claim s cid = Some c" and "get_source s (source_id c) = Some src"
  shows "fst (update_claim_status s now cid st res) = True \<and>
    (\<exists>src'. get_source (snd (update_claim_status s now cid st res)) (source_id c) = Some src' \<and>
       verified_claims src' = verified_claims src +
         (if claim_status c \<noteq> VERIFIED \<and> st = VERIFIED then 1 else 0) \<and>
       refuted_claims src' = refuted_claims src +
         (if claim_status c \<noteq> REFUTED \<and> st = REFUTED then 1 else 0) \<and>
       (\<exists>src''. get_source (snd (update_claim_status
                    (snd (update_claim_status s now cid st res)) now' cid st res'))
                  (source_id c) = Some src'' \<and>
          verified_claims src'' = verified_claims src' \<and>
          refuted_claims src'' = refuted_claims src')) \<and>
    (\<exists>src'. get_source (apply_claim_statuses s cid calls) (source_id c) = Some src' \<and>
       verified_claims src' =
         verified_claims src + entries_into VERIFIED (claim_status c) (map fst calls) \<and>
       refuted_claims src' =
         refuted_claims src + entries_into REFUTED (claim_status c) (map fst calls))"
proof -
  let ?s1 = "snd (update_claim_status s now cid st res)"
  let ?c1 = "c\<lparr>claim_status := st,
      verification_result := (if truthy res then the res else verification_result c)\<rparr>"
  have ok: "fst (update_claim_status s now cid st res) = True"
    by (rule claim_update_found(1) [OF assms(1)])
  from claim_update_counters [OF assms, of now st res]
  obtain src1 where src1: "get_source ?s1 (source_id c) = Some src1"
    and v1: "verified_claims src1 = verified_claims src +
         (if claim_status c \<noteq> VERIFIED \<and> st = VERIFIED then 1 else 0)"
    and r1: "refuted_claims src1 = refuted_claims src +
         (if claim_status c \<noteq> REFUTED \<and> st = REFUTED then 1 else 0)"
    by blast
  have c1: "get_claim ?s1 cid = Some ?c1"
    by (rule claim_update_claim [OF assms(1)])
  have src1': "get_source ?s1 (source_id ?c1) = Some src1"
    using src1 by simp
  from claim_update_counters [OF c1 src1', of now' st res']
  obtain src2 where "get_source (snd (update_claim_status ?s1 now' cid st res')) (source_id c)
      = Some src2"
    and "verified_claims src2 = verified_claims src1"
    and "refuted_claims src2 = refuted_claims src1"
    by auto
  with src1 v1 r1 have step: "\<exists>src'. get_source ?s1 (source_id c) = Some src' \<and>
       verified_claims src' = verified_claims src +
         (if claim_status c \<noteq> VERIFIED \<and> st = VERIFIED then 1 else 0) \<and>
       refuted_claims src' = refuted_claims src +
         (if claim_status c \<noteq> REFUTED \<and> st = REFUTED then 1 else 0) \<and>
       (\<exists>src''. get_source (snd (update_claim_status ?s1 now' cid st res')) (source_id c)
            = Some src'' \<and>
          verified_claims src'' = verified_claims src' \<and>
          refuted_claims src'' = refuted_claims src')"
    by blast
  from ok step apply_claim_statuses_counters [OF assms, of calls]
  show ?thesis by blast
qed

theorem update_claim_status_counts_entries_witness:
  "get_claim demo_store 1 = Some (demo_claim 1 1 PENDING) \<and>
   get_source demo_store 1 = Some tech_insider \<and>
   fst (update_claim_status demo_store 5 1 VERIFIED None) = True \<and>
   (\<exists>src'. get_source (snd (update_claim_status demo_store 5 1 VERIFIED None)) 1 = Some src' \<and>
      verified_claims src' = 1 \<and> refuted_claims src' = 0 \<and>
      (\<exists>src''. get_source (snd (update_claim_status
                   (snd (update_claim_status demo_store 5 1 VERIFIED None)) 6 1 VERIFIED None)) 1
                 = Some src'' \<and>
         verified_claims src'' = verified_claims src' \<and>
         refuted_claims src'' = refuted_claims src')) \<and>
   (\<exists>src'. get_source (apply_claim_statuses demo_store 1
               [(VERIFIED, 5), (VERIFIED, 6), (REFUTED, 7), (VERIFIED, 8)]) 1 = Some src' \<and>
      verified_claims src' = 2 \<and> refuted_claims src' = 1)"
proof -
  have a: "get_claim demo_store 1 = Some (demo_claim 1 1 PENDING)"
    by (simp add: get_claim_def demo_store_def demo_claim_def)
  have b: "get_source demo_store (source_id (demo_claim 1 1 PENDING)) = Some tech_insider"
    by (simp add: get_source_def demo_store_def demo_claim_def tech_insider_def)
  have c: "source_id (demo_claim 1 1 PENDING) = 1" "claim_status (demo_claim 1 1 PENDING) = PENDING"
    "verified_claims tech_insider = 0" "refuted_claims tech_insider = 0"
    by (simp_all add: demo_claim_def tech_insider_def)
  from update_claim_status_counts_entries [OF a b, of 5 VERIFIED None 6 None
      "[(VERIFIED, 5), (VERIFIED, 6), (REFUTED, 7), (VERIFIED, 8)]"] a b c
  show ?thesis by simp
qed

section \<open>Find or create a source\<close>

lemma find_or_create_existing:
  "get_source_by_name s name = Some src \<Longrightarrow> find_or_create_source s now name ty kw = (src, s)"
  by (simp add: find_or_create_source_def)

lemma find_or_create_new:
  "get_source_by_name s name = None \<Longrightarrow>
     find_or_create_source s now name ty kw =
       (new_source (next_source_id s) now name ty kw,
        s\<lparr>sources := sources s @ [new_source (next_source_id s) now name ty kw],
          next_source_id := next_source_id s + 1\<rparr>)"
  by (simp add: find_or_create_source_def Let_def)

lemma src_name_new_source: "src_name (new_source i now name ty kw) = name"
  by (simp add: new_source_def)

lemma find_or_create_then_found:
  "get_source_by_name (snd (find_or_create_source s now name ty kw)) name =
     Some (fst (find_or_create_source s now name ty kw))"
proof (cases "get_source_by_name s name")
  case None
  then have "find (\<lambda>r. src_name r = name)
      (sources s @ [new_source (next_source_id s) now name ty kw]) =
      Some (new_source (next_source_id s) now name ty kw)"
    unfolding get_source_by_name_def
    by (rule find_append_new) (simp add: src_name_new_source)
  with None show ?thesis by (simp add: find_or_create_new get_source_by_name_def)
next
  case (Some src)
  then show ?thesis by (simp add: find_or_create_existing)
qed

lemma find_or_create_rows:
  "length (filter (\<lambda>r. src_name r = name) (sources (snd (find_or_create_source s now name ty kw))))
     = (if get_source_by_name s name = None then 1
        else length (filter (\<lambda>r. src_name r = name) (sources s)))"
proof (cases "get_source_by_name s name")
  case None
  then have "filter (\<lambda>r. src_name r = name) (sources s) = []"
    by (simp add: get_source_by_name_def find_None_filter)
  with None show ?thesis by (simp add: find_or_create_new src_name_new_source)
next
  case (Some src)
  then show ?thesis by (simp add: find_or_create_existing)
qed

text \<open>
  C4, as the specification states it, fails where it says that a new source always has
  credit_score 50: the keyword arguments go to the constructor, and a credit_score given
  there is the one stored. Here a source that does not exist yet is created with
  \<open>credit_score=25\<close>.
\<close>

theorem find_or_create_source_default_counterexample:
  "get_source_by_name empty_store ''@rumor'' = None \<and>
   credit_score (fst (find_or_create_source empty_store 0 ''@rumor'' ANONYMOUS
       (no_kwargs\<lparr>kw_credit_score := Some 25\<rparr>))) = 25 \<and>
   credit_score (fst (find_or_create_source empty_store 0 ''@rumor'' ANONYMOUS
       (no_kwargs\<lparr>kw_credit_score := Some 25\<rparr>))) \<noteq> 50"
  by (simp add: get_source_by_name_def empty_store_def find_or_create_source_def Let_def
      new_source_def column_default_def no_kwargs_def)

text \<open>
  C4, amended. \<open>find_or_create_source\<close> is idempotent by name. If a source with the
  name exists it is returned as it is and the store is unchanged, whatever type and
  attributes the call carries. If none exists, one row is appended with the call's name,
  type and attributes, where credit_score is 50 and each counter is 0 unless the
  attributes give that column. A second call with the same name returns the same source
  and store as the first, and the call never leaves more rows of that name than one (or
  than there were).
\<close>

theorem find_or_create_source_first_write_wins:
  "(get_source_by_name s name = Some src \<longrightarrow>
      find_or_create_source s now name ty kw = (src, s)) \<and>
   (get_source_by_name s name = None \<longrightarrow>
      sources (snd (find_or_create_source s now name ty kw))
        = sources s @ [fst (find_or_create_source s now name ty kw)] \<and>
      src_name (fst (find_or_create_source s now name ty kw)) = name \<and>
      src_type (fst (find_or_create_source s now name ty kw)) = ty \<and>
      credit_score (fst (find_or_create_source s now name ty kw))
        = (case kw_credit_score kw of None \<Rightarrow> 50 | Some v \<Rightarrow> v) \<and>
      total_claims (fst (find_or_create_source s now name ty kw))
        = (case kw_total_claims kw of None \<Rightarrow> 0 | Some v \<Rightarrow> v) \<and>
      verified_claims (fst (find_or_create_source s now name ty kw))
        = (case kw_verified_claims kw of None \<Rightarrow> 0 | Some v \<Rightarrow> v) \<and>
      refuted_claims (fst (find_or_create_source s now name ty kw))
        = (case kw_refuted_claims kw of None \<Rightarrow> 0 | Some v \<Rightarrow> v)) \<and>
   find_or_create_source (snd (find_or_create_source s now name ty kw)) now' name ty' kw'
     = find_or_create_source s now name ty kw \<and>
   length (filter (\<lambda>r. src_name r = name)
       (sources (snd (find_or_create_source s now name ty kw))))
     = (if get_source_by_name s name = None then 1
        else length (filter (\<lambda>r. src_name r = name) (sources s)))"
proof (intro conjI impI)
  show "find_or_create_source (snd (find_or_create_source s now name ty kw)) now' name ty' kw'
     = find_or_create_source s now name ty kw"
    using find_or_create_existing [OF find_or_create_then_found, of s now name ty kw now' ty' kw']
    by simp
  show "length (filter (\<lambda>r. src_name r = name)
       (sources (snd (find_or_create_source s now name ty kw))))
     = (if get_source_by_name s name = None then 1
        else length (filter (\<lambda>r. src_name r = name) (sources s)))"
    by (rule find_or_create_rows)
qed (simp_all add: find_or_create_existing find_or_create_new new_source_def column_default_def)

theorem find_or_create_source_first_write_wins_witness:
  "get_source_by_name demo_store ''SEC'' = Some sec_official \<and>
   find_or_create_source demo_store 9 ''SEC'' BLOG (no_kwargs\<lparr>kw_credit_score := Some 99\<rparr>)
     = (sec_official, demo_store) \<and>
   get_source_by_name demo_store ''new'' = None \<and>
   credit_score (fst (find_or_create_source demo_store 9 ''new'' FORUM no_kwargs)) = 50 \<and>
   total_claims (fst (find_or_create_source demo_store 9 ''new'' FORUM no_kwargs)) = 0 \<and>
   verified_claims (fst (find_or_create_source demo_store 9 ''new'' FORUM no_kwargs)) = 0 \<and>
   refuted_claims (fst (find_or_create_source demo_store 9 ''new'' FORUM no_kwargs)) = 0 \<and>
   length (filter (\<lambda>r. src_name r = ''new'')
       (sources (snd (find_or_create_source demo_store 9 ''new'' FORUM no_kwargs)))) = 1"
proof -
  have a: "get_source_by_name demo_store ''SEC'' = Some sec_official"
    by (simp add: get_source_by_name_def demo_store_def tech_insider_def sec_official_def)
  have b: "get_source_by_name demo_store ''new'' = None"
    by (simp add: get_source_by_name_def demo_store_def tech_insider_def sec_official_def
        fresh_blog_def new_source_def)
  have c: "kw_credit_score no_kwargs = None" "kw_total_claims no_kwargs = None"
    "kw_verified_claims no_kwargs = None" "kw_refuted_claims no_kwargs = None"
    by (simp_all add: no_kwargs_def)
  from find_or_create_source_first_write_wins [of demo_store "''SEC''" sec_official 9 BLOG
      "no_kwargs\<lparr>kw_credit_score := Some 99\<rparr>" 9 BLOG no_kwargs] a
  have w1: "find_or_create_source demo_store 9 ''SEC'' BLOG
      (no_kwargs\<lparr>kw_credit_score := Some 99\<rparr>) = (sec_official, demo_store)"
    by blast
  note t2 = find_or_create_source_first_write_wins [of demo_store "''new''" sec_official 9 FORUM
      no_kwargs 9 FORUM no_kwargs]
  from t2 b c
  have w2: "credit_score (fst (find_or_create_source demo_store 9 ''new'' FORUM no_kwargs)) = 50"
    "total_claims (fst (find_or_create_source demo_store 9 ''new'' FORUM no_kwargs)) = 0"
    "verified_claims (fst (find_or_create_source demo_store 9 ''new'' FORUM no_kwargs)) = 0"
    "refuted_claims (fst (find_or_create_source demo_store 9 ''new'' FORUM no_kwargs)) = 0"
    by simp_all
  from t2 have "length (filter (\<lambda>r. src_name r = ''new'')
       (sources (snd (find_or_create_source demo_store 9 ''new'' FORUM no_kwargs))))
     = (if get_source_by_name demo_store ''new'' = None then 1
        else length (filter (\<lambda>r. src_name r = ''new'') (sources demo_store)))"
    by blast
  with b have w3: "length (filter (\<lambda>r. src_name r = ''new'')
       (sources (snd (find_or_create_source demo_store 9 ''new'' FORUM no_kwargs)))) = 1"
    by simp
  from a b w1 w2 w3 show ?thesis by blast
qed

section \<open>Rounding to a double\<close>

lemma round_half_even_floor: "\<lfloor>y\<rfloor> \<le> round_half_even y" "round_half_even y \<le> \<lfloor>y\<rfloor> + 1"
  by (simp_all add: round_half_even_def Let_def)

lemma round_half_even_of_int: "round_half_even (of_int n) = n"
  by (simp add: round_half_even_def)

lemma round_half_even_ge:
  assumes "of_int n \<le> y"
  shows "n \<le> round_half_even y"
proof -
  from assms have "n \<le> \<lfloor>y\<rfloor>" by (simp add: le_floor_iff)
  with round_half_even_floor(1) [of y] show ?thesis by simp
qed

lemma round_half_even_le:
  assumes "y \<le> of_int n"
  shows "round_half_even y \<le> n"
proof (cases "y = of_int n")
  case True
  then show ?thesis by (simp add: round_half_even_of_int)
next
  case False
  with assms have "y < of_int n" by simp
  then have "\<lfloor>y\<rfloor> < n" by (simp add: floor_less_iff)
  with round_half_even_floor(2) [of y] show ?thesis by simp
qed

lemma round_half_even_mono:
  assumes "y \<le> z"
  shows "round_half_even y \<le> round_half_even z"
proof (cases "\<lfloor>y\<rfloor> = \<lfloor>z\<rfloor>")
  case True
  with assms show ?thesis
    by (auto simp: round_half_even_def Let_def)
next
  case False
  with assms have "\<lfloor>y\<rfloor> < \<lfloor>z\<rfloor>"
    using floor_mono [OF assms] by simp
  with round_half_even_floor(2) [of y] round_half_even_floor(1) [of z] show ?thesis by simp
qed

lemma bitlen_powi:
  assumes "0 < (n::int)"
  shows "(2::rat) powi (bitlen n - 1) \<le> of_int n" and "(of_int n :: rat) < 2 powi bitlen n"
proof -
  from bitlen_bounds [OF assms]
  have a: "2 ^ nat (bitlen n - 1) \<le> n" and b: "n < 2 ^ nat (bitlen n)" by simp_all
  have pos: "1 \<le> bitlen n" using assms by (simp add: bitlen_alt_def)
  have "(of_int (2 ^ nat (bitlen n - 1)) :: rat) \<le> of_int n"
    using a by (simp only: of_int_le_iff)
  then show "(2::rat) powi (bitlen n - 1) \<le> of_int n"
    using pos by (simp add: power_int_nonneg_exp)
  have "(of_int n :: rat) < of_int (2 ^ nat (bitlen n))"
    using b by (simp only: of_int_less_iff)
  then show "(of_int n :: rat) < 2 powi bitlen n"
    using pos by (simp add: power_int_nonneg_exp)
qed

text \<open>The exponent puts a positive number into its binade: 2^52 <= a / 2^e < 2^53.\<close>

lemma float_exponent_binade:
  assumes "0 < a"
  shows "2 powi (float_exponent a + 52) \<le> a" and "a < 2 powi (float_exponent a + 53)"
proof -
  obtain p q where pq: "quotient_of a = (p, q)" by (cases "quotient_of a") auto
  then have q: "0 < q" by (rule quotient_of_denom_pos)
  have a: "a = of_int p / of_int q" using pq by (rule quotient_of_div)
  have p: "0 < p" using assms q unfolding a by (simp add: zero_less_divide_iff)
  define k where "k = bitlen p - bitlen q"
  have qr: "(0::rat) < of_int q" using q by simp
  have up: "a < 2 powi (k + 1)"
  proof -
    have "of_int p < (2::rat) powi bitlen p" by (rule bitlen_powi(2) [OF p])
    also have "\<dots> = 2 powi (k + 1) * 2 powi (bitlen q - 1)"
      by (simp add: k_def flip: power_int_add)
    also have "\<dots> \<le> 2 powi (k + 1) * of_int q"
      using bitlen_powi(1) [OF q] by (simp add: mult_left_mono)
    finally show ?thesis using qr unfolding a by (simp add: divide_less_eq)
  qed
  have lo: "2 powi (k - 1) < a"
  proof -
    have "2 powi (k - 1) * (of_int q :: rat) < 2 powi (k - 1) * 2 powi bitlen q"
      using bitlen_powi(2) [OF q] by (simp add: mult_strict_left_mono)
    also have "\<dots> = 2 powi (bitlen p - 1)"
      by (simp add: k_def flip: power_int_add)
    also have "\<dots> \<le> of_int p" by (rule bitlen_powi(1) [OF p])
    finally show ?thesis using qr unfolding a by (simp add: less_divide_eq)
  qed
  have e: "float_exponent a = (if 2 powi k \<le> a then k else k - 1) - 52"
    by (simp add: float_exponent_def pq k_def Let_def)
  show "2 powi (float_exponent a + 52) \<le> a"
    using lo by (simp add: e)
  show "a < 2 powi (float_exponent a + 53)"
    using up by (auto simp: e not_le add.commute)
qed

lemma fl_pos:
  assumes "0 < x"
  shows "fl x = of_int (round_half_even (x / 2 powi float_exponent x)) * 2 powi float_exponent x"
  using assms by (simp add: fl_def Let_def)

lemma fl_pos_bounds:
  assumes "0 < x"
  shows "2 powi (float_exponent x + 52) \<le> fl x" and "fl x \<le> 2 powi (float_exponent x + 53)"
proof -
  let ?e = "float_exponent x"
  have pe: "(0::rat) < 2 powi ?e" by simp
  have "(2::rat) powi 52 * 2 powi ?e \<le> x"
    using float_exponent_binade(1) [OF assms] by (simp add: power_int_add add.commute)
  then have "(2::rat) powi 52 \<le> x / 2 powi ?e"
    using pe by (simp add: le_divide_eq)
  then have "of_int (2 ^ 52) \<le> x / 2 powi ?e" by simp
  then have "2 ^ 52 \<le> round_half_even (x / 2 powi ?e)" by (rule round_half_even_ge)
  then have "(of_int (2 ^ 52) :: rat) \<le> of_int (round_half_even (x / 2 powi ?e))"
    by (simp only: of_int_le_iff)
  then have "(2::rat) powi 52 * 2 powi ?e \<le> of_int (round_half_even (x / 2 powi ?e)) * 2 powi ?e"
    using pe by (simp add: mult_right_mono)
  then show "2 powi (?e + 52) \<le> fl x"
    by (simp add: fl_pos [OF assms] power_int_add add.commute)
  have "x < (2::rat) powi 53 * 2 powi ?e"
    using float_exponent_binade(2) [OF assms] by (simp add: power_int_add add.commute)
  then have "x / 2 powi ?e \<le> (2::rat) powi 53"
    using pe by (simp add: divide_le_eq)
  then have "x / 2 powi ?e \<le> of_int (2 ^ 53)" by simp
  then have "round_half_even (x / 2 powi ?e) \<le> 2 ^ 53" by (rule round_half_even_le)
  then have "(of_int (round_half_even (x / 2 powi ?e)) :: rat) \<le> of_int (2 ^ 53)"
    by (simp only: of_int_le_iff)
  then have "of_int (round_half_even (x / 2 powi ?e)) * 2 powi ?e \<le> (2::rat) powi 53 * 2 powi ?e"
    using pe by (simp add: mult_right_mono)
  then show "fl x \<le> 2 powi (?e + 53)"
    by (simp add: fl_pos [OF assms] power_int_add add.commute)
qed

text \<open>Rounding is monotone: within a binade by the integer rounding, across binades
  because a power of two separates the two results.\<close>

lemma fl_mono_pos:
  assumes "0 < x" and "x \<le> y"
  shows "fl x \<le> fl y"
proof -
  have y: "0 < y" using assms by simp
  let ?ex = "float_exponent x" and ?ey = "float_exponent y"
  have "(2::rat) powi (?ex + 52) < 2 powi (?ey + 53)"
    using float_exponent_binade(1) [OF assms(1)] float_exponent_binade(2) [OF y] assms(2)
    by linarith
  then have "?ex + 52 < ?ey + 53"
    by (metis power_int_increasing not_le one_le_numeral)
  then have le: "?ex \<le> ?ey" by simp
  show ?thesis
  proof (cases "?ex = ?ey")
    case True
    have pe: "(0::rat) < 2 powi ?ey" by simp
    have "x / 2 powi ?ey \<le> y / 2 powi ?ey"
      using assms(2) pe by (simp add: divide_right_mono)
    then have "round_half_even (x / 2 powi ?ey) \<le> round_half_even (y / 2 powi ?ey)"
      by (rule round_half_even_mono)
    then have "(of_int (round_half_even (x / 2 powi ?ey)) :: rat)
        \<le> of_int (round_half_even (y / 2 powi ?ey))"
      by (simp only: of_int_le_iff)
    then show ?thesis
      using pe by (simp add: fl_pos [OF assms(1)] fl_pos [OF y] True mult_right_mono)
  next
    case False
    with le have "?ex + 53 \<le> ?ey + 52" by simp
    then have "(2::rat) powi (?ex + 53) \<le> 2 powi (?ey + 52)"
      by (intro power_int_increasing) simp_all
    with fl_pos_bounds(2) [OF assms(1)] fl_pos_bounds(1) [OF y] show ?thesis by linarith
  qed
qed

lemma fl_nonneg: "0 \<le> x \<Longrightarrow> 0 \<le> fl x"
proof (cases "x = 0")
  case True
  then show ?thesis by (simp add: fl_def)
next
  case False
  assume "0 \<le> x"
  with False have x: "0 < x" by simp
  have "(0::rat) < 2 powi (float_exponent x + 52)" by simp
  with fl_pos_bounds(1) [OF x] show ?thesis by linarith
qed

lemma fl_mono_nonneg:
  assumes "0 \<le> x" and "x \<le> y"
  shows "fl x \<le> fl y"
proof (cases "x = 0")
  case True
  with assms fl_nonneg [of y] show ?thesis by (simp add: fl_def)
next
  case False
  with assms have "0 < x" by simp
  then show ?thesis using assms(2) by (rule fl_mono_pos)
qed

lemma fl_range:
  assumes "0 \<le> a" and "a \<le> x" and "x \<le> b" and "fl a = a" and "fl b = b"
  shows "a \<le> fl x" and "fl x \<le> b"
proof -
  have "fl a \<le> fl x" using assms(1,2) by (rule fl_mono_nonneg)
  then show "a \<le> fl x" by (simp add: assms(4))
  have "0 \<le> x" using assms(1,2) by simp
  then have "fl x \<le> fl b" using assms(3) by (rule fl_mono_nonneg)
  then show "fl x \<le> b" by (simp add: assms(5))
qed

lemma fl_exact:
  "fl 0 = 0" "fl 1 = 1" "fl 7 = 7" "fl 10 = 10" "fl 30 = 30" "fl 40 = 40" "fl 50 = 50"
  "fl 56 = 56" "fl 80 = 80" "fl 86 = 86" "fl 100 = 100"
  by code_simp+

text \<open>The doubles of the literals 0.1, 0.3 and 0.7, as the model rounds them.\<close>

lemma float_literals:
  "fl (1 / 10) = 3602879701896397 / 2 ^ 55"
  "fl (3 / 10) = 5404319552844595 / 2 ^ 54"
  "fl (7 / 10) = 3152519739159347 / 2 ^ 52"
  by code_simp+

lemma literal_products:
  "0 \<le> fl (7 / 10)" "0 \<le> fl (3 / 10)" "fl (10 * fl (7 / 10)) = 7"
  "fl (80 * fl (7 / 10)) = 56" "fl (100 * fl (3 / 10)) = 30"
  by code_simp+

lemma truediv_unit:
  assumes "0 \<le> a" and "a \<le> b" and "0 < b"
  shows "0 \<le> truediv a b" and "truediv a b \<le> 1"
proof -
  have b: "(0::rat) < of_int b" using assms(3) by simp
  have lo: "(0::rat) \<le> of_int a / of_int b" using assms(1,3) by simp
  have "(of_int a :: rat) \<le> of_int b" using assms(2) by (simp only: of_int_le_iff)
  then have hi: "(of_int a :: rat) / of_int b \<le> 1" using b by (simp add: divide_le_eq)
  from fl_range [OF _ lo hi fl_exact(1) fl_exact(2)]
  show "0 \<le> truediv a b" and "truediv a b \<le> 1"
    by (simp_all add: truediv_def)
qed

lemma py_round2_range:
  assumes "0 \<le> a" and "of_int a / 100 \<le> x" and "x \<le> of_int b / 100"
    and "fl (of_int a / 100) = of_int a / 100" and "fl (of_int b / 100) = of_int b / 100"
  shows "of_int a / 100 \<le> py_round2 x" and "py_round2 x \<le> of_int b / 100"
proof -
  have "of_int a \<le> x * 100" using assms(2) by (simp add: divide_le_eq)
  then have "a \<le> round_half_even (x * 100)" by (rule round_half_even_ge)
  then have "(of_int a :: rat) \<le> of_int (round_half_even (x * 100))"
    by (simp only: of_int_le_iff)
  then have lo: "(of_int a :: rat) / 100 \<le> of_int (round_half_even (x * 100)) / 100"
    by (simp add: divide_right_mono)
  have "x * 100 \<le> of_int b" using assms(3) by (simp add: le_divide_eq)
  then have "round_half_even (x * 100) \<le> b" by (rule round_half_even_le)
  then have "(of_int (round_half_even (x * 100)) :: rat) \<le> of_int b"
    by (simp only: of_int_le_iff)
  then have hi: "(of_int (round_half_even (x * 100)) :: rat) / 100 \<le> of_int b / 100"
    by (simp add: divide_right_mono)
  have a0: "(0::rat) \<le> of_int a / 100" using assms(1) by simp
  from fl_range [OF a0 lo hi assms(4,5)]
  show "of_int a / 100 \<le> py_round2 x" and "py_round2 x \<le> of_int b / 100"
    by (simp_all add: py_round2_def)
qed

section \<open>Event credibility\<close>

lemma outcome_score_bounds:
  assumes "v \<le> t" and "r \<le> t" and "0 < t"
  shows "10 \<le> outcome_score v r t" and "outcome_score v r t \<le> 80"
proof -
  let ?a = "truediv (int v) (int t)" and ?b = "truediv (int r) (int t)"
  have a: "0 \<le> ?a" "?a \<le> 1" using truediv_unit [of "int v" "int t"] assms by simp_all
  have b: "0 \<le> ?b" "?b \<le> 1" using truediv_unit [of "int r" "int t"] assms by simp_all
  have ma: "0 \<le> fmul ?a 30" "fmul ?a 30 \<le> 30"
    using fl_range [of 0 "?a * 30" 30] a fl_exact by (simp_all add: fmul_def)
  have mb: "0 \<le> fmul ?b 40" "fmul ?b 40 \<le> 40"
    using fl_range [of 0 "?b * 40" 40] b fl_exact by (simp_all add: fmul_def)
  have p: "50 \<le> fadd 50 (fmul ?a 30)" "fadd 50 (fmul ?a 30) \<le> 80"
    using fl_range [of 50 "50 + fmul ?a 30" 80] ma fl_exact by (simp_all add: fadd_def)
  have "10 \<le> fl (fadd 50 (fmul ?a 30) - fmul ?b 40) \<and>
        fl (fadd 50 (fmul ?a 30) - fmul ?b 40) \<le> 80"
    using fl_range [of 10 "fadd 50 (fmul ?a 30) - fmul ?b 40" 80] p mb fl_exact by simp
  then show "10 \<le> outcome_score v r t" and "outcome_score v r t \<le> 80"
    by (simp_all add: outcome_score_def fsub_def)
qed

lemma sum_list_bounds:
  "\<forall>x\<in>set xs. 0 \<le> x \<and> x \<le> (100::int) \<Longrightarrow>
     0 \<le> sum_list xs \<and> sum_list xs \<le> 100 * int (length xs)"
  by (induction xs) auto

lemma mean_bounds:
  assumes "\<forall>x\<in>set xs. 0 \<le> x \<and> x \<le> (100::int)" and "xs \<noteq> []"
  shows "0 \<le> truediv (sum_list xs) (int (length xs))"
    and "truediv (sum_list xs) (int (length xs)) \<le> 100"
proof -
  from sum_list_bounds [OF assms(1)]
  have a: "0 \<le> sum_list xs" and b: "sum_list xs \<le> 100 * int (length xs)" by simp_all
  have n: "(0::rat) < of_int (int (length xs))" using assms(2) by simp
  have lo: "(0::rat) \<le> of_int (sum_list xs) / of_int (int (length xs))"
    using a by simp
  have "(of_int (sum_list xs) :: rat) \<le> of_int (100 * int (length xs))"
    using b by (simp only: of_int_le_iff)
  then have "(of_int (sum_list xs) :: rat) \<le> 100 * of_int (int (length xs))" by simp
  then have hi: "(of_int (sum_list xs) / of_int (int (length xs)) :: rat) \<le> 100"
    using n by (simp add: divide_le_eq)
  from fl_range [OF _ lo hi fl_exact(1) fl_exact(11)]
  show "0 \<le> truediv (sum_list xs) (int (length xs))"
    and "truediv (sum_list xs) (int (length xs)) \<le> 100"
    by (simp_all add: truediv_def)
qed

lemma blend_score_bounds:
  assumes "10 \<le> sc" and "sc \<le> 80" and "\<forall>x\<in>set xs. 0 \<le> x \<and> x \<le> (100::int)"
  shows "7 \<le> blend_score sc xs" and "blend_score sc xs \<le> 86"
proof -
  have "7 \<le> blend_score sc xs \<and> blend_score sc xs \<le> 86"
  proof (cases "xs = []")
    case True
    then show ?thesis using assms(1,2) by (simp add: blend_score_def)
  next
    case False
    let ?m = "truediv (sum_list xs) (int (length xs))"
    let ?c7 = "fl (7 / 10)" and ?c3 = "fl (3 / 10)"
    have m: "0 \<le> ?m" "?m \<le> 100" using mean_bounds [OF assms(3) False] by simp_all
    have "fl (10 * ?c7) \<le> fl (sc * ?c7)"
      using assms(1) literal_products(1) by (intro fl_mono_nonneg) (simp_all add: mult_right_mono)
    then have s1: "7 \<le> fmul sc ?c7" by (simp add: fmul_def literal_products)
    have "fl (sc * ?c7) \<le> fl (80 * ?c7)"
      using assms(1,2) literal_products(1) by (intro fl_mono_nonneg) (simp_all add: mult_right_mono)
    then have s2: "fmul sc ?c7 \<le> 56" by (simp add: fmul_def literal_products)
    have m1: "0 \<le> fmul ?m ?c3"
      using m(1) literal_products(2) by (simp add: fmul_def fl_nonneg)
    have "fl (?m * ?c3) \<le> fl (100 * ?c3)"
      using m literal_products(2) by (intro fl_mono_nonneg) (simp_all add: mult_right_mono)
    then have m2: "fmul ?m ?c3 \<le> 30" by (simp add: fmul_def literal_products)
    have "7 \<le> fl (fmul sc ?c7 + fmul ?m ?c3) \<and> fl (fmul sc ?c7 + fmul ?m ?c3) \<le> 86"
      using fl_range [of 7 "fmul sc ?c7 + fmul ?m ?c3" 86] s1 s2 m1 m2 fl_exact by simp
    then show ?thesis using False by (simp add: blend_score_def fadd_def)
  qed
  then show "7 \<le> blend_score sc xs" and "blend_score sc xs \<le> 86" by simp_all
qed

lemma py_round2_bounds:
  assumes "7 \<le> x" and "x \<le> 86"
  shows "7 \<le> py_round2 x" and "py_round2 x \<le> 86"
  using py_round2_range [of 700 x 8600] assms fl_exact by simp_all

lemma credibility_no_event:
  "get_event s eid = None \<Longrightarrow>
     calculate_event_credibility s eid = [(''error'', PStr ''Event not found'')]"
  by (simp add: calculate_event_credibility_def)

lemma credibility_no_claims:
  "get_event s eid = Some ev \<Longrightarrow> get_claims_by_event s eid = [] \<Longrightarrow>
     calculate_event_credibility s eid =
       [(''credibility_score'', PFloat 50), (''confidence'', PStr ''low''),
        (''reason'', PStr ''No claims to verify'')]"
  by (simp add: calculate_event_credibility_def)

lemma credibility_with_claims:
  "get_event s eid = Some ev \<Longrightarrow> get_claims_by_event s eid \<noteq> [] \<Longrightarrow>
     calculate_event_credibility s eid =
       [(''credibility_score'', PFloat (py_round2 (blend_score
           (outcome_score
              (length (filter (\<lambda>c. claim_status c = VERIFIED) (get_claims_by_event s eid)))
              (length (filter (\<lambda>c. claim_status c = REFUTED) (get_claims_by_event s eid)))
              (length (get_claims_by_event s eid)))
           (source_scores_of s (get_claims_by_event s eid))))),
        (''verified_claims'',
           PInt (int (length (filter (\<lambda>c. claim_status c = VERIFIED) (get_claims_by_event s eid))))),
        (''refuted_claims'',
           PInt (int (length (filter (\<lambda>c. claim_status c = REFUTED) (get_claims_by_event s eid))))),
        (''total_claims'', PInt (int (length (get_claims_by_event s eid)))),
        (''confidence'',
           PStr (if 3 \<le> length (get_claims_by_event s eid) then ''high'' else ''low''))]"
  by (simp add: calculate_event_credibility_def Let_def)

lemma source_scores_in_range:
  assumes "\<forall>c\<in>set cl. \<forall>src. claim_source s c = Some src \<longrightarrow>
             0 \<le> credit_score src \<and> credit_score src \<le> 100"
  shows "\<forall>x\<in>set (source_scores_of s cl). 0 \<le> x \<and> x \<le> 100"
  using assms
  by (induction cl) (auto simp: source_scores_of_def split: option.splits)


text \<open>
  C8. \<open>calculate_event_credibility\<close> has no clamping step, yet for an event with at
  least one claim, when the credit score of every source behind its claims is in [0,100]
  the returned credibility_score is in [0,100]: the term before the blend is in [10,80]
  and the result is in [7,86]. That nothing clamps shows at a source whose score is out of
  range: with a credit score of 1000 in the small store the result is 244.
\<close>

theorem event_credibility_in_range:
  assumes "get_event s eid = Some ev" and "get_claims_by_event s eid \<noteq> []"
    and "\<forall>c\<in>set (get_claims_by_event s eid). \<forall>src. claim_source s c = Some src \<longrightarrow>
           0 \<le> credit_score src \<and> credit_score src \<le> 100"
  shows "(10 \<le> outcome_score
              (length (filter (\<lambda>c. claim_status c = VERIFIED) (get_claims_by_event s eid)))
              (length (filter (\<lambda>c. claim_status c = REFUTED) (get_claims_by_event s eid)))
              (length (get_claims_by_event s eid)) \<and>
          outcome_score
              (length (filter (\<lambda>c. claim_status c = VERIFIED) (get_claims_by_event s eid)))
              (length (filter (\<lambda>c. claim_status c = REFUTED) (get_claims_by_event s eid)))
              (length (get_claims_by_event s eid)) \<le> 80) \<and>
         (\<exists>x. map_of (calculate_event_credibility s eid) ''credibility_score'' = Some (PFloat x) \<and>
            7 \<le> x \<and> x \<le> 86 \<and> 0 \<le> x \<and> x \<le> 100) \<and>
         map_of (calculate_event_credibility inflated_store ''E-1'') ''credibility_score''
           = Some (PFloat 244)"
proof -
  let ?cl = "get_claims_by_event s eid"
  let ?o = "outcome_score (length (filter (\<lambda>c. claim_status c = VERIFIED) ?cl))
              (length (filter (\<lambda>c. claim_status c = REFUTED) ?cl)) (length ?cl)"
  let ?x = "py_round2 (blend_score ?o (source_scores_of s ?cl))"
  have pos: "0 < length ?cl" using assms(2) by simp
  have o: "10 \<le> ?o" "?o \<le> 80"
    using outcome_score_bounds [OF length_filter_le length_filter_le pos] by simp_all
  have b: "7 \<le> blend_score ?o (source_scores_of s ?cl)"
    "blend_score ?o (source_scores_of s ?cl) \<le> 86"
    using blend_score_bounds [OF o source_scores_in_range [OF assms(3)]] by simp_all
  have x: "7 \<le> ?x" "?x \<le> 86"
    using py_round2_bounds [OF b] by simp_all
  have m: "map_of (calculate_event_credibility s eid) ''credibility_score'' = Some (PFloat ?x)"
    by (simp add: credibility_with_claims [OF assms(1,2)])
  have ex: "\<exists>x. map_of (calculate_event_credibility s eid) ''credibility_score''
      = Some (PFloat x) \<and> 7 \<le> x \<and> x \<le> 86 \<and> 0 \<le> x \<and> x \<le> 100"
    using m x by auto
  have infl: "map_of (calculate_event_credibility inflated_store ''E-1'') ''credibility_score''
           = Some (PFloat 244)"
    by code_simp
  from o ex infl show ?thesis by blast
qed

theorem event_credibility_in_range_witness:
  "get_event demo_store ''E-1'' = Some demo_event \<and>
   get_claims_by_event demo_store ''E-1''
     = [demo_claim 1 1 PENDING, demo_claim 2 1 PENDING, demo_claim 3 2 VERIFIED] \<and>
   source_scores_of demo_store (get_claims_by_event demo_store ''E-1'') = [80, 80, 20] \<and>
   (\<exists>x. map_of (calculate_event_credibility demo_store ''E-1'') ''credibility_score''
      = Some (PFloat x) \<and> 7 \<le> x \<and> x \<le> 86 \<and> 0 \<le> x \<and> x \<le> 100)"
proof -
  have a: "get_event demo_store ''E-1'' = Some demo_event"
    by (simp add: get_event_def demo_store_def demo_event_def)
  have cl: "get_claims_by_event demo_store ''E-1''
      = [demo_claim 1 1 PENDING, demo_claim 2 1 PENDING, demo_claim 3 2 VERIFIED]"
    by (simp add: get_claims_by_event_def demo_store_def demo_claim_def)
  have b: "get_claims_by_event demo_store ''E-1'' \<noteq> []"
    by (simp add: cl)
  have c: "\<forall>c\<in>set (get_claims_by_event demo_store ''E-1''). \<forall>src.
      claim_source demo_store c = Some src \<longrightarrow> 0 \<le> credit_score src \<and> credit_score src \<le> 100"
    unfolding cl
    by (simp add: claim_source_def get_source_def demo_store_def demo_claim_def
        tech_insider_def sec_official_def)
  have d: "source_scores_of demo_store (get_claims_by_event demo_store ''E-1'') = [80, 80, 20]"
    unfolding cl
    by (simp add: source_scores_of_def claim_source_def get_source_def demo_store_def
        demo_claim_def tech_insider_def sec_official_def)
  from event_credibility_in_range [OF a b c] a cl d show ?thesis by blast
qed

section \<open>The credibility formula\<close>

lemma claim_source_id: "claim_source s c = Some src \<Longrightarrow> src_id src = source_id c"
  by (auto simp: claim_source_def get_source_def find_Some_iff)

lemma map_filter_source_ids:
  "src \<in> set (List.map_filter (claim_source s) cl) \<Longrightarrow> src_id src \<in> source_id ` set cl"
  by (induction cl) (auto split: option.splits dest: claim_source_id)

lemma distinct_claim_sources:
  "distinct (map source_id cl) \<Longrightarrow> distinct (List.map_filter (claim_source s) cl)"
proof (induction cl)
  case Nil
  then show ?case by simp
next
  case (Cons c cl)
  show ?case
  proof (cases "claim_source s c")
    case None
    with Cons show ?thesis by simp
  next
    case (Some src)
    have "src \<notin> set (List.map_filter (claim_source s) cl)"
    proof
      assume "src \<in> set (List.map_filter (claim_source s) cl)"
      then have "src_id src \<in> source_id ` set cl" by (rule map_filter_source_ids)
      with claim_source_id [OF Some] Cons.prems show False by auto
    qed
    with Some Cons show ?thesis by simp
  qed
qed

text \<open>
  C2, as the specification states it, fails where it takes the mean over the distinct
  sources. In the small store the event has two claims by the first source (credit score
  80) and one, verified, by the second (credit score 20): the code averages 80, 80 and 20
  and returns 60.0, where the mean over the two distinct sources gives 57.
\<close>

theorem event_credibility_distinct_sources_counterexample:
  "get_event demo_store ''E-1'' = Some demo_event \<and>
   map_of (calculate_event_credibility demo_store ''E-1'') ''credibility_score''
     = Some (PFloat 60) \<and>
   spec_credibility_score demo_store ''E-1'' = 57"
  by code_simp

text \<open>
  C2, amended. For an event in the store, \<open>calculate_event_credibility\<close> returns score
  50.0 with confidence low and a reason when the event has no claims. Otherwise it returns
  the verified, refuted and total counts, confidence high exactly when the total is at
  least 3, and as score the outcome term 50 + (verified / total) * 30 - (refuted / total)
  * 40, blended as that term times 0.7 plus 0.3 times the mean of the credit scores
  collected one per claim that has a source (a source with several claims in the event
  counts once per claim; with no such claim the term is not blended), all in float
  arithmetic, rounded to two decimals by \<open>round\<close>. Where the claims have pairwise
  different sources, the scores averaged are those of the distinct sources.
\<close>

theorem event_credibility_formula:
  assumes "get_event s eid = Some ev"
  shows
    "(get_claims_by_event s eid = [] \<longrightarrow>
        calculate_event_credibility s eid =
          [(''credibility_score'', PFloat 50), (''confidence'', PStr ''low''),
           (''reason'', PStr ''No claims to verify'')]) \<and>
     (get_claims_by_event s eid \<noteq> [] \<longrightarrow>
        (let cl = get_claims_by_event s eid;
             v = length (filter (\<lambda>c. claim_status c = VERIFIED) cl);
             r = length (filter (\<lambda>c. claim_status c = REFUTED) cl);
             t = length cl;
             scores = map credit_score (List.map_filter (claim_source s) cl);
             outcome = fsub (fadd 50 (fmul (truediv (int v) (int t)) 30))
                            (fmul (truediv (int r) (int t)) 40)
         in calculate_event_credibility s eid =
              [(''credibility_score'', PFloat (py_round2
                  (if scores = [] then outcome
                   else fadd (fmul outcome (fl (7 / 10)))
                             (fmul (truediv (sum_list scores) (int (length scores)))
                                   (fl (3 / 10)))))),
               (''verified_claims'', PInt (int v)), (''refuted_claims'', PInt (int r)),
               (''total_claims'', PInt (int t)),
               (''confidence'', PStr (if 3 \<le> t then ''high'' else ''low''))])) \<and>
     (distinct (map source_id (get_claims_by_event s eid)) \<longrightarrow>
        map credit_score (List.map_filter (claim_source s) (get_claims_by_event s eid))
          = map credit_score
              (remdups (List.map_filter (claim_source s) (get_claims_by_event s eid))))"
proof (intro conjI impI)
  assume "get_claims_by_event s eid = []"
  with assms show "calculate_event_credibility s eid =
          [(''credibility_score'', PFloat 50), (''confidence'', PStr ''low''),
           (''reason'', PStr ''No claims to verify'')]"
    by (rule credibility_no_claims)
next
  assume ne: "get_claims_by_event s eid \<noteq> []"
  show "let cl = get_claims_by_event s eid;
             v = length (filter (\<lambda>c. claim_status c = VERIFIED) cl);
             r = length (filter (\<lambda>c. claim_status c = REFUTED) cl);
             t = length cl;
             scores = map credit_score (List.map_filter (claim_source s) cl);
             outcome = fsub (fadd 50 (fmul (truediv (int v) (int t)) 30))
                            (fmul (truediv (int r) (int t)) 40)
         in calculate_event_credibility s eid =
              [(''credibility_score'', PFloat (py_round2
                  (if scores = [] then outcome
                   else fadd (fmul outcome (fl (7 / 10)))
                             (fmul (truediv (sum_list scores) (int (length scores)))
                                   (fl (3 / 10)))))),
               (''verified_claims'', PInt (int v)), (''refuted_claims'', PInt (int r)),
               (''total_claims'', PInt (int t)),
               (''confidence'', PStr (if 3 \<le> t then ''high'' else ''low''))]"
    unfolding Let_def credibility_with_claims [OF assms ne]
    by (simp add: blend_score_def outcome_score_def source_scores_of_def)
next
  assume "distinct (map source_id (get_claims_by_event s eid))"
  then have "distinct (List.map_filter (claim_source s) (get_claims_by_event s eid))"
    by (rule distinct_claim_sources)
  then show "map credit_score (List.map_filter (claim_source s) (get_claims_by_event s eid))
          = map credit_score
              (remdups (List.map_filter (claim_source s) (get_claims_by_event s eid)))"
    by (simp add: distinct_remdups_id)
qed

theorem event_credibility_formula_witness:
  "get_event rounding_store ''E-1'' = Some demo_event \<and>
   get_claims_by_event rounding_store ''E-1''
     = [demo_claim 1 1 PENDING, demo_claim 2 1 PENDING, demo_claim 3 1 PENDING,
        demo_claim 4 2 PENDING] \<and>
   (let cl = get_claims_by_event rounding_store ''E-1'';
        v = length (filter (\<lambda>c. claim_status c = VERIFIED) cl);
        r = length (filter (\<lambda>c. claim_status c = REFUTED) cl);
        t = length cl;
        scores = map credit_score (List.map_filter (claim_source rounding_store) cl);
        outcome = fsub (fadd 50 (fmul (truediv (int v) (int t)) 30))
                       (fmul (truediv (int r) (int t)) 40)
    in calculate_event_credibility rounding_store ''E-1'' =
         [(''credibility_score'', PFloat (py_round2
             (if scores = [] then outcome
              else fadd (fmul outcome (fl (7 / 10)))
                        (fmul (truediv (sum_list scores) (int (length scores)))
                              (fl (3 / 10)))))),
          (''verified_claims'', PInt (int v)), (''refuted_claims'', PInt (int r)),
          (''total_claims'', PInt (int t)),
          (''confidence'', PStr (if 3 \<le> t then ''high'' else ''low''))]) \<and>
   calculate_event_credibility rounding_store ''E-1'' =
     [(''credibility_score'', PFloat (fl (5023 / 100))), (''verified_claims'', PInt 0),
      (''refuted_claims'', PInt 0), (''total_claims'', PInt 4),
      (''confidence'', PStr ''high'')] \<and>
   fl (5023 / 100) = 7069244040088125 / 140737488355328 \<and>
   get_event (demo_store\<lparr>claims := []\<rparr>) ''E-1'' = Some demo_event \<and>
   get_claims_by_event (demo_store\<lparr>claims := []\<rparr>) ''E-1'' = [] \<and>
   calculate_event_credibility (demo_store\<lparr>claims := []\<rparr>) ''E-1'' =
     [(''credibility_score'', PFloat 50), (''confidence'', PStr ''low''),
      (''reason'', PStr ''No claims to verify'')] \<and>
   distinct (map source_id (get_claims_by_event thirds_store ''E-1'')) = False \<and>
   distinct (map source_id (get_claims_by_event
     (demo_store\<lparr>claims := [demo_claim 1 1 VERIFIED, demo_claim 3 2 REFUTED]\<rparr>) ''E-1'')) \<and>
   map credit_score (List.map_filter
       (claim_source (demo_store\<lparr>claims := [demo_claim 1 1 VERIFIED, demo_claim 3 2 REFUTED]\<rparr>))
       (get_claims_by_event
          (demo_store\<lparr>claims := [demo_claim 1 1 VERIFIED, demo_claim 3 2 REFUTED]\<rparr>) ''E-1''))
     = map credit_score (remdups (List.map_filter
       (claim_source (demo_store\<lparr>claims := [demo_claim 1 1 VERIFIED, demo_claim 3 2 REFUTED]\<rparr>))
       (get_claims_by_event
          (demo_store\<lparr>claims := [demo_claim 1 1 VERIFIED, demo_claim 3 2 REFUTED]\<rparr>) ''E-1'')))"
proof -
  let ?s0 = "demo_store\<lparr>claims := []\<rparr>"
  let ?s2 = "demo_store\<lparr>claims := [demo_claim 1 1 VERIFIED, demo_claim 3 2 REFUTED]\<rparr>"
  have a: "get_event rounding_store ''E-1'' = Some demo_event"
    "get_event ?s0 ''E-1'' = Some demo_event" "get_event ?s2 ''E-1'' = Some demo_event"
    by (simp_all add: get_event_def rounding_store_def demo_store_def demo_event_def)
  have cl: "get_claims_by_event rounding_store ''E-1''
     = [demo_claim 1 1 PENDING, demo_claim 2 1 PENDING, demo_claim 3 1 PENDING,
        demo_claim 4 2 PENDING]"
    by (simp add: get_claims_by_event_def rounding_store_def demo_claim_def)
  have ne: "get_claims_by_event rounding_store ''E-1'' \<noteq> []"
    unfolding cl by simp
  have cl0: "get_claims_by_event ?s0 ''E-1'' = []"
    by (simp add: get_claims_by_event_def)
  have cl2: "get_claims_by_event ?s2 ''E-1'' = [demo_claim 1 1 VERIFIED, demo_claim 3 2 REFUTED]"
    by (simp add: get_claims_by_event_def demo_claim_def)
  have d2: "distinct (map source_id (get_claims_by_event ?s2 ''E-1''))"
    unfolding cl2 by (simp add: demo_claim_def)
  have d3: "distinct (map source_id (get_claims_by_event thirds_store ''E-1'')) = False"
    by (simp add: get_claims_by_event_def thirds_store_def rounding_store_def demo_claim_def)
  have v: "calculate_event_credibility rounding_store ''E-1'' =
     [(''credibility_score'', PFloat (fl (5023 / 100))), (''verified_claims'', PInt 0),
      (''refuted_claims'', PInt 0), (''total_claims'', PInt 4),
      (''confidence'', PStr ''high'')]"
    by code_simp
  have f: "fl (5023 / 100) = 7069244040088125 / 140737488355328"
    by code_simp
  note t1 = event_credibility_formula [OF a(1)]
  note t0 = event_credibility_formula [OF a(2)]
  note t2 = event_credibility_formula [OF a(3)]
  from t1 ne have w1: "let cl = get_claims_by_event rounding_store ''E-1'';
        v = length (filter (\<lambda>c. claim_status c = VERIFIED) cl);
        r = length (filter (\<lambda>c. claim_status c = REFUTED) cl);
        t = length cl;
        scores = map credit_score (List.map_filter (claim_source rounding_store) cl);
        outcome = fsub (fadd 50 (fmul (truediv (int v) (int t)) 30))
                       (fmul (truediv (int r) (int t)) 40)
    in calculate_event_credibility rounding_store ''E-1'' =
         [(''credibility_score'', PFloat (py_round2
             (if scores = [] then outcome
              else fadd (fmul outcome (fl (7 / 10)))
                        (fmul (truediv (sum_list scores) (int (length scores)))
                              (fl (3 / 10)))))),
          (''verified_claims'', PInt (int v)), (''refuted_claims'', PInt (int r)),
          (''total_claims'', PInt (int t)),
          (''confidence'', PStr (if 3 \<le> t then ''high'' else ''low''))]"
    by blast
  from t0 cl0 have w0: "calculate_event_credibility ?s0 ''E-1'' =
     [(''credibility_score'', PFloat 50), (''confidence'', PStr ''low''),
      (''reason'', PStr ''No claims to verify'')]"
    by blast
  from t2 d2 have w2: "map credit_score (List.map_filter (claim_source ?s2)
       (get_claims_by_event ?s2 ''E-1''))
     = map credit_score (remdups (List.map_filter (claim_source ?s2)
       (get_claims_by_event ?s2 ''E-1'')))"
    by blast
  from a cl w1 v f cl0 w0 d3 d2 w2 show ?thesis by blast
qed

section \<open>Source statistics\<close>

text \<open>
  C10, as it is stated, fails for a source whose total_claims is negative: the guard is
  \<open>total_claims > 0\<close>, so the accuracy_rate is the integer 0, not
  verified_claims / total_claims * 100. A source created with \<open>total_claims=-1\<close> and
  \<open>verified_claims=1\<close> among its keyword arguments has accuracy_rate 0, where the
  division gives -100.
\<close>

theorem source_statistics_negative_counterexample:
  "get_source negative_store 1 =
     Some (new_source 1 0 ''@rumor'' ANONYMOUS
        (no_kwargs\<lparr>kw_total_claims := Some (- 1), kw_verified_claims := Some 1\<rparr>)) \<and>
   map_of (get_source_statistics negative_store 1) ''total_claims'' = Some (PInt (- 1)) \<and>
   map_of (get_source_statistics negative_store 1) ''verified_claims'' = Some (PInt 1) \<and>
   map_of (get_source_statistics negative_store 1) ''accuracy_rate'' = Some (PInt 0) \<and>
   fmul (truediv 1 (- 1)) 100 = - 100"
  by code_simp

text \<open>
  C10, amended. For an id that names no source, \<open>get_source_statistics\<close> returns the
  empty dictionary. For a source in the store it returns the bundle of its counters and
  credit score, with accuracy_rate the float verified_claims / total_claims * 100 when
  total_claims is positive and the integer 0 when it is not (zero or negative): the
  division is made only under the guard \<open>total_claims > 0\<close>.
\<close>

theorem source_statistics_guarded:
  "(get_source s sid = None \<longrightarrow> get_source_statistics s sid = []) \<and>
   (get_source s sid = Some src \<longrightarrow>
      get_source_statistics s sid =
        [(''total_claims'', PInt (total_claims src)),
         (''verified_claims'', PInt (verified_claims src)),
         (''refuted_claims'', PInt (refuted_claims src)),
         (''accuracy_rate'',
            if 0 < total_claims src
            then PFloat (fmul (truediv (verified_claims src) (total_claims src)) 100)
            else PInt 0),
         (''credit_score'', PInt (credit_score src))] \<and>
      (total_claims src \<le> 0 \<longrightarrow>
         map_of (get_source_statistics s sid) ''accuracy_rate'' = Some (PInt 0)) \<and>
      (0 < total_claims src \<longrightarrow>
         map_of (get_source_statistics s sid) ''accuracy_rate''
           = Some (PFloat (fmul (truediv (verified_claims src) (total_claims src)) 100))))"
  by (simp add: get_source_statistics_def)

theorem source_statistics_guarded_witness:
  "get_source demo_store 9 = None \<and> get_source_statistics demo_store 9 = [] \<and>
   get_source demo_store 3 = Some fresh_blog \<and> total_claims fresh_blog = 0 \<and>
   map_of (get_source_statistics demo_store 3) ''accuracy_rate'' = Some (PInt 0) \<and>
   get_source demo_store 2 = Some sec_official \<and> total_claims sec_official = 1 \<and>
   map_of (get_source_statistics demo_store 2) ''accuracy_rate'' = Some (PFloat 100) \<and>
   get_source thirds_store 1 = Some (steady\<lparr>verified_claims := 1\<rparr>) \<and>
   total_claims (steady\<lparr>verified_claims := 1\<rparr>) = 3 \<and>
   map_of (get_source_statistics thirds_store 1) ''accuracy_rate''
     = Some (PFloat (2345624805922133 / 70368744177664))"
proof -
  have a: "get_source demo_store 9 = None"
    by (simp add: get_source_def demo_store_def tech_insider_def sec_official_def
        fresh_blog_def new_source_def)
  have b: "get_source demo_store 3 = Some fresh_blog" "total_claims fresh_blog = 0"
    by (simp_all add: get_source_def demo_store_def tech_insider_def sec_official_def
        fresh_blog_def new_source_def no_kwargs_def column_default_def)
  have c: "get_source demo_store 2 = Some sec_official" "total_claims sec_official = 1"
    "verified_claims sec_official = 1"
    by (simp_all add: get_source_def demo_store_def tech_insider_def sec_official_def)
  have d: "get_source thirds_store 1 = Some (steady\<lparr>verified_claims := 1\<rparr>)"
    "total_claims (steady\<lparr>verified_claims := 1\<rparr>) = 3"
    "verified_claims (steady\<lparr>verified_claims := 1\<rparr>) = 1"
    by (simp_all add: get_source_def thirds_store_def rounding_store_def steady_def)
  have e: "fmul (truediv 1 1) 100 = 100"
    "fmul (truediv 1 3) 100 = 2345624805922133 / 70368744177664"
    by code_simp+
  from source_statistics_guarded [of demo_store 9 fresh_blog] a
  have w1: "get_source_statistics demo_store 9 = []" by blast
  from source_statistics_guarded [of demo_store 3 fresh_blog] b
  have w2: "map_of (get_source_statistics demo_store 3) ''accuracy_rate'' = Some (PInt 0)"
    by simp
  from source_statistics_guarded [of demo_store 2 sec_official] c e
  have w3: "map_of (get_source_statistics demo_store 2) ''accuracy_rate'' = Some (PFloat 100)"
    by simp
  from source_statistics_guarded [of thirds_store 1 "steady\<lparr>verified_claims := 1\<rparr>"] d e
  have w4: "map_of (get_source_statistics thirds_store 1) ''accuracy_rate''
     = Some (PFloat (2345624805922133 / 70368744177664))"
    by simp
  from a b c(1,2) d(1,2) w1 w2 w3 w4 show ?thesis by blast
qed

section \<open>Creating a claim\<close>

lemma source_id_new_claim: "source_id (new_claim i now text sid eid kw) = sid"
  by (simp add: new_claim_def)

lemma create_claim_found:
  assumes "get_source s sid = Some src" and "\<not> (fk \<and> dangling_event s eid)"
  shows "create_claim fk s now text sid eid kw =
     Inr (new_claim (next_claim_id s) now text sid eid kw,
          s\<lparr>claims := claims s @ [new_claim (next_claim_id s) now text sid eid kw],
            sources := update_first (\<lambda>r. src_id r = sid)
              (\<lambda>r. r\<lparr>total_claims := total_claims r + 1, src_updated_at := now\<rparr>) (sources s),
            next_claim_id := next_claim_id s + 1\<rparr>)"
  using assms by (auto simp: create_claim_def Let_def)

lemma create_claim_missing:
  assumes "get_source s sid = None"
  shows "create_claim True s now text sid eid kw = Inl IntegrityError"
    and "create_claim False s now text sid eid kw =
     Inr (new_claim (next_claim_id s) now text sid eid kw,
          s\<lparr>claims := claims s @ [new_claim (next_claim_id s) now text sid eid kw],
            next_claim_id := next_claim_id s + 1\<rparr>)"
  using assms by (simp_all add: create_claim_def Let_def)

lemma create_claim_refused:
  assumes "fk" and "get_source s sid = None \<or> dangling_event s eid"
  shows "create_claim fk s now text sid eid kw = Inl IntegrityError"
  using assms by (auto simp: create_claim_def Let_def)

text \<open>
  C5, as the specification states it, fails for a \<open>source_id\<close> that names no source:
  the repository has no such check and no SourceNotFound error. On an engine that does
  not enforce foreign keys the call succeeds and the claim is in the table afterwards.
\<close>

theorem create_claim_missing_source_counterexample:
  "get_source demo_store 9 = None \<and>
   create_claim False demo_store 5 ''rumour'' 9 None no_claim_kwargs =
     Inr (new_claim 4 5 ''rumour'' 9 None no_claim_kwargs,
          demo_store\<lparr>claims := claims demo_store @ [new_claim 4 5 ''rumour'' 9 None no_claim_kwargs],
            next_claim_id := 5\<rparr>)"
  by (simp add: get_source_def create_claim_def Let_def demo_store_def tech_insider_def
      sec_official_def fresh_blog_def new_source_def)

text \<open>
  C5, amended. \<open>create_claim\<close> makes no check of its own and has no SourceNotFound
  error; whether the call fails is the engine's matter. Where foreign keys are enforced
  and \<open>source_id\<close> names no source, or a given \<open>event_id\<close> names no event, the commit
  raises the integrity error and nothing is inserted. In every other call the claim is
  appended: if \<open>source_id\<close> names a source, that source's total_claims grows by one in
  the same commit, as does the number of claims that reference it; if it names none
  (foreign keys not enforced), the claim is appended and no counter changes.
\<close>

theorem create_claim_counts_on_source:
  "(fk \<and> (get_source s sid = None \<or> dangling_event s eid) \<longrightarrow>
      create_claim fk s now text sid eid kw = Inl IntegrityError) \<and>
   (get_source s sid = Some src \<and> \<not> (fk \<and> dangling_event s eid) \<longrightarrow>
      (\<exists>claim s'. create_claim fk s now text sid eid kw = Inr (claim, s') \<and>
         claims s' = claims s @ [claim] \<and> source_id claim = sid \<and>
         get_source s' sid =
           Some (src\<lparr>total_claims := total_claims src + 1, src_updated_at := now\<rparr>) \<and>
         length (filter (\<lambda>c. source_id c = sid) (claims s'))
           = length (filter (\<lambda>c. source_id c = sid) (claims s)) + 1)) \<and>
   (get_source s sid = None \<and> \<not> fk \<longrightarrow>
      create_claim fk s now text sid eid kw =
        Inr (new_claim (next_claim_id s) now text sid eid kw,
             s\<lparr>claims := claims s @ [new_claim (next_claim_id s) now text sid eid kw],
               next_claim_id := next_claim_id s + 1\<rparr>))"
proof (intro conjI impI)
  assume "fk \<and> (get_source s sid = None \<or> dangling_event s eid)"
  then show "create_claim fk s now text sid eid kw = Inl IntegrityError"
    using create_claim_refused by blast
next
  assume h: "get_source s sid = Some src \<and> \<not> (fk \<and> dangling_event s eid)"
  then have src: "get_source s sid = Some src" and ev: "\<not> (fk \<and> dangling_event s eid)"
    by simp_all
  let ?claim = "new_claim (next_claim_id s) now text sid eid kw"
  let ?s' = "s\<lparr>claims := claims s @ [?claim],
            sources := update_first (\<lambda>r. src_id r = sid)
              (\<lambda>r. r\<lparr>total_claims := total_claims r + 1, src_updated_at := now\<rparr>) (sources s),
            next_claim_id := next_claim_id s + 1\<rparr>"
  have "create_claim fk s now text sid eid kw = Inr (?claim, ?s')"
    by (rule create_claim_found [OF src ev])
  moreover have "claims ?s' = claims s @ [?claim]" by simp
  moreover have "source_id ?claim = sid" by (rule source_id_new_claim)
  moreover have "get_source ?s' sid =
      Some (src\<lparr>total_claims := total_claims src + 1, src_updated_at := now\<rparr>)"
    using src by (simp add: get_source_def find_update_first_same)
  moreover have "length (filter (\<lambda>c. source_id c = sid) (claims ?s'))
           = length (filter (\<lambda>c. source_id c = sid) (claims s)) + 1"
    by (simp add: source_id_new_claim)
  ultimately show "\<exists>claim s'. create_claim fk s now text sid eid kw = Inr (claim, s') \<and>
         claims s' = claims s @ [claim] \<and> source_id claim = sid \<and>
         get_source s' sid =
           Some (src\<lparr>total_claims := total_claims src + 1, src_updated_at := now\<rparr>) \<and>
         length (filter (\<lambda>c. source_id c = sid) (claims s'))
           = length (filter (\<lambda>c. source_id c = sid) (claims s)) + 1"
    by blast
next
  assume "get_source s sid = None \<and> \<not> fk"
  then show "create_claim fk s now text sid eid kw =
        Inr (new_claim (next_claim_id s) now text sid eid kw,
             s\<lparr>claims := claims s @ [new_claim (next_claim_id s) now text sid eid kw],
               next_claim_id := next_claim_id s + 1\<rparr>)"
    using create_claim_missing(2) by simp
qed

theorem create_claim_counts_on_source_witness:
  "get_source demo_store 2 = Some sec_official \<and>
   dangling_event demo_store (Some ''E-1'') = False \<and>
   (\<exists>claim s'. create_claim True demo_store 5 ''text'' 2 (Some ''E-1'') no_claim_kwargs
        = Inr (claim, s') \<and>
      claims s' = claims demo_store @ [claim] \<and> source_id claim = 2 \<and>
      get_source s' 2 = Some (sec_official\<lparr>total_claims := 2, src_updated_at := 5\<rparr>) \<and>
      length (filter (\<lambda>c. source_id c = 2) (claims s')) = 2) \<and>
   dangling_event demo_store (Some ''E-404'') \<and>
   create_claim True demo_store 5 ''text'' 2 (Some ''E-404'') no_claim_kwargs
     = Inl IntegrityError \<and>
   (\<exists>claim s'. create_claim False demo_store 5 ''text'' 2 (Some ''E-404'') no_claim_kwargs
        = Inr (claim, s') \<and>
      claims s' = claims demo_store @ [claim] \<and> source_id claim = 2 \<and>
      get_source s' 2 = Some (sec_official\<lparr>total_claims := 2, src_updated_at := 5\<rparr>) \<and>
      length (filter (\<lambda>c. source_id c = 2) (claims s')) = 2) \<and>
   get_source demo_store 9 = None \<and>
   create_claim True demo_store 5 ''text'' 9 None no_claim_kwargs = Inl IntegrityError \<and>
   create_claim False demo_store 5 ''text'' 9 None no_claim_kwargs =
     Inr (new_claim 4 5 ''text'' 9 None no_claim_kwargs,
          demo_store\<lparr>claims := claims demo_store @ [new_claim 4 5 ''text'' 9 None no_claim_kwargs],
            next_claim_id := 5\<rparr>)"
proof -
  have a: "get_source demo_store 2 = Some sec_official"
    by (simp add: get_source_def demo_store_def tech_insider_def sec_official_def)
  have b: "dangling_event demo_store (Some ''E-1'') = False"
    "dangling_event demo_store (Some ''E-404'')"
    by (simp_all add: dangling_event_def get_event_def demo_store_def demo_event_def)
  have c: "get_source demo_store 9 = None"
    by (simp add: get_source_def demo_store_def tech_insider_def sec_official_def
        fresh_blog_def new_source_def)
  have d: "total_claims sec_official + 1 = 2"
    "length (filter (\<lambda>c. source_id c = 2) (claims demo_store)) + 1 = 2"
    "next_claim_id demo_store = 4" "next_claim_id demo_store + 1 = 5"
    by (simp_all add: sec_official_def demo_store_def demo_claim_def)
  note t1 = create_claim_counts_on_source [of True demo_store 2 "Some ''E-1''" 5
      "''text''" no_claim_kwargs sec_official]
  note t2 = create_claim_counts_on_source [of True demo_store 2 "Some ''E-404''" 5
      "''text''" no_claim_kwargs sec_official]
  note t3 = create_claim_counts_on_source [of False demo_store 2 "Some ''E-404''" 5
      "''text''" no_claim_kwargs sec_official]
  note t4 = create_claim_counts_on_source [of True demo_store 9 None 5
      "''text''" no_claim_kwargs sec_official]
  note t5 = create_claim_counts_on_source [of False demo_store 9 None 5
      "''text''" no_claim_kwargs sec_official]
  from t1 a b have "\<exists>claim s'. create_claim True demo_store 5 ''text'' 2 (Some ''E-1'')
        no_claim_kwargs = Inr (claim, s') \<and>
      claims s' = claims demo_store @ [claim] \<and> source_id claim = 2 \<and>
      get_source s' 2 = Some (sec_official\<lparr>total_claims := total_claims sec_official + 1,
         src_updated_at := 5\<rparr>) \<and>
      length (filter (\<lambda>c. source_id c = 2) (claims s'))
        = length (filter (\<lambda>c. source_id c = 2) (claims demo_store)) + 1"
    by blast
  then have w1: "\<exists>claim s'. create_claim True demo_store 5 ''text'' 2 (Some ''E-1'')
        no_claim_kwargs = Inr (claim, s') \<and>
      claims s' = claims demo_store @ [claim] \<and> source_id claim = 2 \<and>
      get_source s' 2 = Some (sec_official\<lparr>total_claims := 2, src_updated_at := 5\<rparr>) \<and>
      length (filter (\<lambda>c. source_id c = 2) (claims s')) = 2"
    unfolding d .
  from t2 b have w2: "create_claim True demo_store 5 ''text'' 2 (Some ''E-404'') no_claim_kwargs
      = Inl IntegrityError"
    by blast
  from t3 a have "\<exists>claim s'. create_claim False demo_store 5 ''text'' 2 (Some ''E-404'')
        no_claim_kwargs = Inr (claim, s') \<and>
      claims s' = claims demo_store @ [claim] \<and> source_id claim = 2 \<and>
      get_source s' 2 = Some (sec_official\<lparr>total_claims := total_claims sec_official + 1,
         src_updated_at := 5\<rparr>) \<and>
      length (filter (\<lambda>c. source_id c = 2) (claims s'))
        = length (filter (\<lambda>c. source_id c = 2) (claims demo_store)) + 1"
    by blast
  then have w3: "\<exists>claim s'. create_claim False demo_store 5 ''text'' 2 (Some ''E-404'')
        no_claim_kwargs = Inr (claim, s') \<and>
      claims s' = claims demo_store @ [claim] \<and> source_id claim = 2 \<and>
      get_source s' 2 = Some (sec_official\<lparr>total_claims := 2, src_updated_at := 5\<rparr>) \<and>
      length (filter (\<lambda>c. source_id c = 2) (claims s')) = 2"
    unfolding d .
  from t4 c have w4: "create_claim True demo_store 5 ''text'' 9 None no_claim_kwargs
      = Inl IntegrityError"
    by blast
  from t5 c have "create_claim False demo_store 5 ''text'' 9 None no_claim_kwargs =
     Inr (new_claim (next_claim_id demo_store) 5 ''text'' 9 None no_claim_kwargs,
          demo_store\<lparr>claims := claims demo_store
              @ [new_claim (next_claim_id demo_store) 5 ''text'' 9 None no_claim_kwargs],
            next_claim_id := next_claim_id demo_store + 1\<rparr>)"
    by blast
  then have w5: "create_claim False demo_store 5 ''text'' 9 None no_claim_kwargs =
     Inr (new_claim 4 5 ''text'' 9 None no_claim_kwargs,
          demo_store\<lparr>claims := claims demo_store @ [new_claim 4 5 ''text'' 9 None no_claim_kwargs],
            next_claim_id := 5\<rparr>)"
    by (simp add: d)
  from a b c w1 w2 w3 w4 w5 show ?thesis by blast
qed

section \<open>Creating a refutation edge\<close>

text \<open>
  C6. \<open>create_claim_refutation\<close> is to validate its confidence against the range [0,1]
  that models.py documents for the column, and to refuse an edge that has the same
  claim at both ends, the edge being one claim refuting another. The code does neither: it
  builds the row from its arguments and commits. Called with claim 1 at both ends and
  confidence 5.0, on an engine that enforces foreign keys and a store that holds claim 1,
  it stores the edge as given and returns it.
\<close>

theorem create_claim_refutation_stores_self_loop:
  "get_claim demo_store 1 = Some (demo_claim 1 1 PENDING) \<and>
   create_claim_refutation True demo_store 5 1 1 5 None =
     Inr (\<lparr>ref_id = 1, refuting_claim_id = 1, refuted_claim_id = 1, confidence = 5,
           evidence = [], ref_created_at = 5\<rparr>,
          demo_store\<lparr>refutations := [\<lparr>ref_id = 1, refuting_claim_id = 1, refuted_claim_id = 1,
              confidence = 5, evidence = [], ref_created_at = 5\<rparr>],
            next_refutation_id := 2\<rparr>)"
  by (simp add: create_claim_refutation_def Let_def truthy_def get_claim_def demo_store_def
      demo_claim_def)

section \<open>Trending sources\<close>









end
